theory Spec2Isabelle
  imports Main "HOL-Library.Sublist"
begin

section \<open>The pi adapter: a protocol bridge between the Codex client and the pi agent\<close>

text \<open>
  The development embeds the pi adapter, the TypeScript script that bridges the Codex
  app-server protocol to the RPC mode of the pi coding agent: its module-level state, the
  two output helpers, the child-process supervisor \<^verbatim>\<open>ensurePiProcess\<close>, the command
  correlator \<^verbatim>\<open>sendPiCommand\<close> / \<^verbatim>\<open>handlePiMessage\<close>, the event translator
  \<^verbatim>\<open>translatePiEventToCodex\<close>, the request router \<^verbatim>\<open>handleCodexRequest\<close> and the line
  handler of \<^verbatim>\<open>main\<close>.

  Conventions of the embedding.
  \<^item> The module-level \<^verbatim>\<open>let\<close> variables are the fields of one record, \<open>bridge\<close>, passed
    through every function. What the script writes to its own stdout, and what it writes to
    the child's stdin, are two more fields that only grow.
  \<^item> JavaScript strings are \<open>string\<close>; \<^verbatim>\<open>undefined\<close> is \<open>None\<close>. Event and request
    fields have the types of their \<^verbatim>\<open>as\<close> casts in the source, so no property access
    throws.
  \<^item> \<^verbatim>\<open>uuidv4()\<close> draws from a counter: the n-th identifier drawn is \<open>uuid_str n\<close>.
  \<^item> An \<^verbatim>\<open>await\<close> is a suspension: the rest of the handler is stored as a value of type
    \<open>sink\<close> or \<open>io_wait\<close> and run when the awaited operation settles. A handler runs without
    interruption between two suspensions, as on the single JavaScript thread. The
    continuation of a settled promise runs at the input that settles it; an \<^verbatim>\<open>await\<close> of
    an \<^verbatim>\<open>ensurePiProcess\<close> that returns at once does not suspend.
  \<^item> The child handle is present or absent. Its \<^verbatim>\<open>killed\<close> flag is set only by the
    shutdown handlers, which end the process, so it is false whenever a request is handled.
  \<^item> The rate-limit fetch and the reading of the credentials file are operations of the
    environment: their outcome arrives as an input, already computed.
\<close>

subsection \<open>Strings as JavaScript uses them\<close>

text \<open>\<^verbatim>\<open>s.split(c)\<close> for a one-character separator: never empty, \<^verbatim>\<open>"".split(c)\<close> is \<^verbatim>\<open>[""]\<close>.\<close>

fun js_split :: "char \<Rightarrow> string \<Rightarrow> string list" where
  "js_split c [] = [] # []"
| "js_split c (x # xs) =
     (if x = c then [] # js_split c xs
      else (case js_split c xs of [] \<Rightarrow> [x] # [] | y # ys \<Rightarrow> (x # y) # ys))"

text \<open>\<^verbatim>\<open>xs.join(sep)\<close>.\<close>

fun js_join :: "string \<Rightarrow> string list \<Rightarrow> string" where
  "js_join sep [] = []"
| "js_join sep [x] = x"
| "js_join sep (x # y # ys) = x @ sep @ js_join sep (y # ys)"

text \<open>\<^verbatim>\<open>s.includes(sub)\<close>; \<^verbatim>\<open>s.startsWith(p)\<close> is \<open>prefix p s\<close>.\<close>

fun js_includes :: "string \<Rightarrow> string \<Rightarrow> bool" where
  "js_includes [] sub = (sub = [])"
| "js_includes (x # xs) sub = (prefix sub (x # xs) \<or> js_includes xs sub)"

text \<open>\<^verbatim>\<open>s.toLowerCase()\<close> on the ASCII letters.\<close>

definition lower_char :: "char \<Rightarrow> char" where
  "lower_char c =
     (case map_of (zip ''ABCDEFGHIJKLMNOPQRSTUVWXYZ'' ''abcdefghijklmnopqrstuvwxyz'') c of
        Some l \<Rightarrow> l
      | None \<Rightarrow> c)"

definition js_toLowerCase :: "string \<Rightarrow> string" where
  "js_toLowerCase s = map lower_char s"

text \<open>The decimal rendering of a natural number, as a template literal prints it.\<close>

definition digit :: "nat \<Rightarrow> char" where
  "digit d = ''0123456789'' ! d"

fun show_nat :: "nat \<Rightarrow> string" where
  "show_nat n = (if n < 10 then [digit n] else show_nat (n div 10) @ [digit (n mod 10)])"

declare show_nat.simps [simp del]

text \<open>\<^verbatim>\<open>a || b\<close> on strings that may be undefined: the empty string is falsy.\<close>

definition orElse :: "string option \<Rightarrow> string option \<Rightarrow> string option" where
  "orElse a b = (case a of None \<Rightarrow> b | Some s \<Rightarrow> if s = [] then b else Some s)"

definition orStr :: "string option \<Rightarrow> string \<Rightarrow> string" where
  "orStr a d = (case a of None \<Rightarrow> d | Some s \<Rightarrow> if s = [] then d else s)"

subsection \<open>JSON values and the two wire dialects\<close>

text \<open>A \<open>json\<close> is a JavaScript value as \<^verbatim>\<open>JSON.parse\<close> returns it and \<^verbatim>\<open>JSON.stringify\<close> prints
  it. The numbers that occur are integers. A JavaScript number is a double: an integer of
  magnitude below \<open>2 ^ 53\<close> is read from its own digits and printed as them, while a longer
  literal is read into the nearest double (\<^verbatim>\<open>9007199254740993\<close> as \<^verbatim>\<open>9007199254740992\<close>). So
  the id of a request is the value it was read as, and what is said of the lines written
  under an id is said for the ids that are read and printed digit for digit (\<open>exact_id\<close>).\<close>

datatype json =
    JNull
  | JBool bool
  | JNum int
  | JStr string
  | JArr "json list"
  | JObj "(string \<times> json) list"

text \<open>An object literal whose undefined properties \<^verbatim>\<open>JSON.stringify\<close> leaves out.\<close>

fun defined_fields :: "(string \<times> json option) list \<Rightarrow> (string \<times> json) list" where
  "defined_fields [] = []"
| "defined_fields ((k, None) # fs) = defined_fields fs"
| "defined_fields ((k, Some v) # fs) = (k, v) # defined_fields fs"

definition obj :: "(string \<times> json option) list \<Rightarrow> json" where
  "obj fs = JObj (defined_fields fs)"

fun field :: "string \<Rightarrow> json \<Rightarrow> json option" where
  "field k (JObj fs) = map_of fs k"
| "field k _ = None"

definition str_or_null :: "string option \<Rightarrow> json" where
  "str_or_null s = (case s of None \<Rightarrow> JNull | Some t \<Rightarrow> JStr t)"

text \<open>Tool arguments: the string-valued properties of \<^verbatim>\<open>event.args\<close>.\<close>

type_synonym args = "(string \<times> string) list"

definition arg :: "args option \<Rightarrow> string \<Rightarrow> string option" where
  "arg a k = (case a of None \<Rightarrow> None | Some kv \<Rightarrow> map_of kv k)"

datatype content_block = ContentBlock (cb_type: "string option") (cb_text: "string option")

datatype tool_result =
  ToolResult (tr_content: "content_block list option") (tr_diff: "string option")

datatype tool_call =
  ToolCall (tc_id: "json option") (tc_name: "json option") (tc_arguments: "json option")

datatype assistant_event =
  AssistantEvent (ae_type: string) (ae_delta: "string option") (ae_content: "string option")
    (ae_toolCall: "tool_call option")

datatype usage =
  Usage (u_input: "json option") (u_output: "json option") (u_cacheRead: "json option")
    (u_cacheWrite: "json option")

datatype pi_message =
  PiMessage (m_role: "string option") (m_content: "content_block list option")
    (m_usage: "usage option")

text \<open>The typed events of the agent (\<^verbatim>\<open>PiEvent\<close>), one constructor per \<^verbatim>\<open>event.type\<close>.\<close>

datatype pi_event =
    AgentStart
  | AgentEnd
  | MessageStart "pi_message option"
  | MessageUpdate "assistant_event option"
  | MessageEnd "pi_message option"
  | ToolExecutionStart string string "args option"
  | ToolExecutionUpdate string "tool_result option"
  | ToolExecutionEnd string string "tool_result option" bool "args option"
  | AutoRetryStart "string option"
  | AutoRetryEnd bool "string option"
  | HookError "string option" "string option"
  | OtherEvent string

datatype model_entry =
  ModelEntry (me_provider: string) (me_id: string) (me_name: "string option") (me_reasoning: bool)

text \<open>What an awaited operation delivers, and how it settles.\<close>

datatype payload = NoPayload | Models "model_entry list" | Json json

datatype outcome = Resolved payload | Rejected string

text \<open>\<^verbatim>\<open>PiResponse\<close>: \<open>pr_data\<close> is \<^verbatim>\<open>response.data\<close>.\<close>

datatype pi_response =
  PiResponse (pr_id: "string option") (pr_success: bool) (pr_data: payload)
    (pr_error: "string option")

datatype pi_msg = Response pi_response | Event pi_event

text \<open>\<^verbatim>\<open>PiCommand\<close> without its id; the id is attached when the command is sent.\<close>

datatype pi_command = PiCommand (pc_type: string) (pc_fields: "(string \<times> string) list")

datatype input_block = InputBlock (ib_type: "string option") (ib_text: "string option")

datatype params =
  Params (p_cwd: "string option") (p_threadId: "string option")
    (p_input: "input_block list option") (p_model: "string option")
    (p_provider: "string option")

datatype codex_request =
  CodexRequest (r_id: "json option") (r_method: string) (r_params: params)

text \<open>
  A promise returned by \<^verbatim>\<open>sendPiCommand\<close> is awaited (or given a \<^verbatim>\<open>.catch\<close>) at five places
  of the source; \<open>sink\<close> names the code that runs when it settles:
  \<^item> \<open>AfterInitialModel\<close>: the last await of \<^verbatim>\<open>ensurePiProcess\<close>, for the request whose
    handler called it;
  \<^item> \<open>TurnAfterSetModel\<close>, \<open>InterruptAfterAbort\<close>, \<open>ModelListAfterModels\<close>: the awaits in
    the cases of \<^verbatim>\<open>handleCodexRequest\<close>;
  \<^item> \<open>Ignored\<close>: the promises of \<^verbatim>\<open>new_session\<close> and \<^verbatim>\<open>prompt\<close>, whose \<^verbatim>\<open>.catch\<close> only logs.

  The other awaits of the source wait for the file system, a timer or the network;
  \<open>io_wait\<close> names those.
\<close>

datatype sink =
    AfterInitialModel codex_request
  | TurnAfterSetModel "json option" string
  | InterruptAfterAbort "json option"
  | ModelListAfterModels "json option"
  | Ignored

datatype io_wait =
    AccessCheck codex_request
  | StartupDelay codex_request
  | RateLimitsFetch "json option"
  | AuthStatusRead "json option"

subsection \<open>The state\<close>

record bridge =
  piProcess :: "nat option"
  piReader :: "nat option"
  currentThreadId :: "string option"
  currentTurnId :: "string option"
  currentMessageId :: "string option"
  isProcessing :: bool
  pendingRequests :: "(string \<times> sink) list"
  currentModel :: string
  currentProvider :: string
  cwd :: string
  toolArgsCache :: "(string \<times> string \<times> args option) list"
  accumulatedDiff :: "string list"
  modelProviderMap :: "(string \<times> string) list"
  stdout :: "json list"
  piStdin :: "(string \<times> pi_command) list"
  ioWaits :: "(nat \<times> io_wait) list"
  ioCount :: nat
  uuidCount :: nat
  spawnCount :: nat
  processCwd :: string
  clock :: string

text \<open>\<^verbatim>\<open>Map.set\<close>, \<^verbatim>\<open>Map.get\<close>, \<^verbatim>\<open>Map.delete\<close> on an insertion-ordered association list.\<close>

fun map_set :: "'k \<Rightarrow> 'v \<Rightarrow> ('k \<times> 'v) list \<Rightarrow> ('k \<times> 'v) list" where
  "map_set k v [] = [(k, v)]"
| "map_set k v ((k', v') # kvs) =
     (if k' = k then (k, v) # kvs else (k', v') # map_set k v kvs)"

definition map_delete :: "'k \<Rightarrow> ('k \<times> 'v) list \<Rightarrow> ('k \<times> 'v) list" where
  "map_delete k kvs = filter (\<lambda>kv. fst kv \<noteq> k) kvs"

definition uuid_str :: "nat \<Rightarrow> string" where
  "uuid_str n = ''uuid-'' @ show_nat n"

definition uuidv4 :: "bridge \<Rightarrow> string \<times> bridge" where
  "uuidv4 st = (uuid_str (uuidCount st), st\<lparr>uuidCount := Suc (uuidCount st)\<rparr>)"

subsection \<open>Output helpers\<close>

definition sendCodexResponse ::
  "json option \<Rightarrow> json option \<Rightarrow> (int \<times> string) option \<Rightarrow> bridge \<Rightarrow> bridge" where
  "sendCodexResponse rid result err st =
     st\<lparr>stdout := stdout st @
       [case err of
          Some (code, message) \<Rightarrow>
            obj [(''jsonrpc'', Some (JStr ''2.0'')), (''id'', rid),
                 (''error'', Some (obj [(''code'', Some (JNum code)),
                                        (''message'', Some (JStr message))]))]
        | None \<Rightarrow>
            obj [(''jsonrpc'', Some (JStr ''2.0'')), (''id'', rid), (''result'', result)]]\<rparr>"

definition sendCodexNotification :: "string \<Rightarrow> json \<Rightarrow> bridge \<Rightarrow> bridge" where
  "sendCodexNotification method ps st =
     st\<lparr>stdout := stdout st @
       [obj [(''jsonrpc'', Some (JStr ''2.0'')), (''method'', Some (JStr method)),
             (''params'', Some ps)]]\<rparr>"

subsection \<open>The event translator\<close>

text \<open>The first two lines of \<^verbatim>\<open>translatePiEventToCodex\<close>: the thread id, and the turn id,
  which costs a fresh identifier when no turn is current.\<close>

definition ids :: "bridge \<Rightarrow> string \<times> string \<times> bridge" where
  "ids st =
     (let threadId = orStr (currentThreadId st) ''default'' in
      case orElse (currentTurnId st) None of
        Some t \<Rightarrow> (threadId, t, st)
      | None \<Rightarrow> (let (u, st') = uuidv4 st in (threadId, u, st')))"

text \<open>Tool classification and the display string, as both tool cases compute them.\<close>

definition isCommand :: "string \<Rightarrow> bool" where
  "isCommand toolName = (toolName = ''bash'' \<or> toolName = ''Bash'')"

definition isFileChange :: "string \<Rightarrow> bool" where
  "isFileChange toolName = (toolName \<in> set [''edit'', ''Edit'', ''write'', ''Write''])"

definition arg_command :: "args option \<Rightarrow> string" where
  "arg_command a = orStr (orElse (arg a ''command'') (arg a ''cmd'')) []"

definition arg_filePath :: "args option \<Rightarrow> string" where
  "arg_filePath a =
     orStr (orElse (orElse (orElse (arg a ''path'') (arg a ''file_path'')) (arg a ''file''))
              (arg a ''filename'')) []"

definition arg_pattern :: "args option \<Rightarrow> string" where
  "arg_pattern a = orStr (arg a ''pattern'') []"

definition displayCmd :: "string \<Rightarrow> string \<Rightarrow> string \<Rightarrow> string" where
  "displayCmd toolName filePath pattern =
     (if toolName = ''read'' \<or> toolName = ''Read'' then ''read '' @ filePath
      else if toolName = ''ls'' then ''ls '' @ (if filePath = [] then ''.'' else filePath)
      else if toolName = ''find'' then
        ''find '' @ [CHR 0x22] @ pattern @ [CHR 0x22] @ '' in '' @ (if filePath = [] then ''.'' else filePath)
      else if toolName = ''grep'' then
        ''grep /'' @ pattern @ ''/ in '' @ (if filePath = [] then ''.'' else filePath)
      else if filePath \<noteq> [] then toolName @ '' '' @ filePath else toolName)"

definition toolType :: "string \<Rightarrow> string" where
  "toolType toolName =
     (if isCommand toolName then ''commandExecution''
      else if isFileChange toolName then ''fileChange'' else ''commandExecution'')"

definition command_field :: "string \<Rightarrow> args option \<Rightarrow> json option" where
  "command_field toolName a =
     (if \<not> isFileChange toolName then
        Some (JStr (if isCommand toolName then arg_command a
                    else displayCmd toolName (arg_filePath a) (arg_pattern a)))
      else None)"

definition change_kind :: "string \<Rightarrow> string" where
  "change_kind toolName = (if js_toLowerCase toolName = ''write'' then ''create'' else ''edit'')"

text \<open>The fragment that \<^verbatim>\<open>tool_execution_end\<close> pushes for a file change: with a diff body,
  the two-line header and the body; without one, a full-addition diff of the output text,
  if there is any.\<close>

definition diff_fragment :: "string \<Rightarrow> string option \<Rightarrow> string \<Rightarrow> string option" where
  "diff_fragment filePath diff fileContent =
     (case orElse diff None of
        Some d \<Rightarrow>
          Some (''--- a/'' @ filePath @ [CHR 0x0A] @ ''+++ b/'' @ filePath @ [CHR 0x0A] @ d)
      | None \<Rightarrow>
          if fileContent \<noteq> [] then
            Some (''--- /dev/null'' @ [CHR 0x0A] @ ''+++ b/'' @ filePath @ [CHR 0x0A] @
                  ''@@ -0,0 +1,'' @ show_nat (length (js_split (CHR 0x0A) fileContent)) @
                  '' @@'' @ [CHR 0x0A] @
                  js_join [CHR 0x0A]
                    (map (\<lambda>l. CHR ''+'' # l) (js_split (CHR 0x0A) fileContent)))
          else None)"

text \<open>\<^verbatim>\<open>cached?.args || event.args || {}\<close>.\<close>

definition cached_args :: "(string \<times> string \<times> args option) list \<Rightarrow> string \<Rightarrow> args option \<Rightarrow> args" where
  "cached_args cache toolCallId eventArgs =
     (case map_of cache toolCallId of
        Some (n, Some ca) \<Rightarrow> ca
      | _ \<Rightarrow> (case eventArgs of Some ea \<Rightarrow> ea | None \<Rightarrow> []))"

definition find_text :: "tool_result option \<Rightarrow> content_block option" where
  "find_text r =
     (case r of None \<Rightarrow> None
      | Some res \<Rightarrow>
          (case tr_content res of None \<Rightarrow> None
           | Some cs \<Rightarrow> List.find (\<lambda>c. cb_type c = Some ''text'') cs))"

definition diff_of :: "tool_result option \<Rightarrow> string option" where
  "diff_of r = (case r of None \<Rightarrow> None | Some res \<Rightarrow> tr_diff res)"

definition text_of :: "content_block option \<Rightarrow> string option" where
  "text_of t = (case t of None \<Rightarrow> None | Some b \<Rightarrow> cb_text b)"

definition error_notification :: "string \<Rightarrow> string \<Rightarrow> string \<Rightarrow> bool \<Rightarrow> bridge \<Rightarrow> bridge" where
  "error_notification threadId turnId message willRetry st =
     sendCodexNotification ''error''
       (obj [(''threadId'', Some (JStr threadId)), (''turnId'', Some (JStr turnId)),
             (''error'', Some (obj [(''message'', Some (JStr message))])),
             (''willRetry'', Some (JBool willRetry))]) st"

fun translatePiEventToCodex :: "pi_event \<Rightarrow> bridge \<Rightarrow> bridge" where
  "translatePiEventToCodex AgentStart st0 =
     (let (threadId, turnId, st) = ids st0 in
      sendCodexNotification ''turn/started''
        (obj [(''turn'', Some (obj [(''id'', Some (JStr turnId)),
                                    (''threadId'', Some (JStr threadId)),
                                    (''status'', Some (JStr ''inProgress''))]))])
        (st\<lparr>isProcessing := True, accumulatedDiff := []\<rparr>))"
| "translatePiEventToCodex AgentEnd st0 =
     (let (threadId, turnId, st) = ids st0;
          st1 = sendCodexNotification ''turn/completed''
            (obj [(''turn'', Some (obj [(''id'', Some (JStr turnId)),
                                        (''threadId'', Some (JStr threadId)),
                                        (''status'', Some (JStr ''completed''))]))])
            (st\<lparr>isProcessing := False\<rparr>)
      in st1\<lparr>currentTurnId := None\<rparr>)"
| "translatePiEventToCodex (MessageStart message) st0 =
     (let (threadId, turnId, st) = ids st0 in
      if (case message of None \<Rightarrow> False | Some m \<Rightarrow> m_role m = Some ''assistant'') then
        (let (u, st1) = uuidv4 st in
         sendCodexNotification ''item/started''
           (obj [(''threadId'', Some (JStr threadId)),
                 (''item'', Some (obj [(''id'', Some (JStr u)),
                                       (''type'', Some (JStr ''agentMessage'')),
                                       (''status'', Some (JStr ''inProgress''))]))])
           (st1\<lparr>currentMessageId := Some u\<rparr>))
      else st)"
| "translatePiEventToCodex (MessageUpdate assistantEvent) st0 =
     (let (threadId, turnId, st) = ids st0 in
      case assistantEvent of
        None \<Rightarrow> st
      | Some ae \<Rightarrow>
          if ae_type ae = ''text_delta'' then
            sendCodexNotification ''item/agentMessage/delta''
              (obj [(''threadId'', Some (JStr threadId)),
                    (''itemId'', Some (JStr (orStr (currentMessageId st) ''msg-0''))),
                    (''delta'', map_option JStr (ae_delta ae))]) st
          else if ae_type ae = ''thinking_start'' then
            sendCodexNotification ''item/started''
              (obj [(''threadId'', Some (JStr threadId)),
                    (''item'', Some (obj [(''id'', Some (JStr ''thinking'')),
                                          (''type'', Some (JStr ''reasoning'')),
                                          (''status'', Some (JStr ''inProgress''))]))]) st
          else if ae_type ae = ''thinking_delta'' then
            sendCodexNotification ''item/reasoning/textDelta''
              (obj [(''threadId'', Some (JStr threadId)),
                    (''itemId'', Some (JStr ''thinking'')),
                    (''delta'', map_option JStr (ae_delta ae))]) st
          else if ae_type ae = ''thinking_end'' then
            (let content = orStr (ae_content ae) [] in
             sendCodexNotification ''item/completed''
               (obj [(''threadId'', Some (JStr threadId)),
                     (''item'', Some (obj [(''id'', Some (JStr ''thinking'')),
                                           (''type'', Some (JStr ''reasoning'')),
                                           (''status'', Some (JStr ''completed'')),
                                           (''content'', Some (JStr content)),
                                           (''summary'', Some (JStr content))]))]) st)
          else if ae_type ae = ''toolcall_end'' then
            (case ae_toolCall ae of
               None \<Rightarrow> st
             | Some toolCall \<Rightarrow>
                 sendCodexNotification ''item/started''
                   (obj [(''threadId'', Some (JStr threadId)),
                         (''item'', Some (obj [(''id'', tc_id toolCall),
                                               (''type'', Some (JStr ''commandExecution'')),
                                               (''name'', tc_name toolCall),
                                               (''arguments'', tc_arguments toolCall),
                                               (''status'', Some (JStr ''inProgress''))]))]) st)
          else st)"
| "translatePiEventToCodex (MessageEnd message) st0 =
     (let (threadId, turnId, st) = ids st0 in
      case message of
        None \<Rightarrow> st
      | Some m \<Rightarrow>
          if m_role m = Some ''assistant'' then
            (let textBlocks =
                   (case m_content m of None \<Rightarrow> []
                    | Some bs \<Rightarrow> filter (\<lambda>b. cb_type b = Some ''text'') bs);
                 text = js_join [CHR 0x0A]
                          (map (\<lambda>b. case cb_text b of None \<Rightarrow> [] | Some t \<Rightarrow> t) textBlocks);
                 (messageId, st1) =
                   (case orElse (currentMessageId st) None of
                      Some i \<Rightarrow> (i, st) | None \<Rightarrow> uuidv4 st);
                 st2 = sendCodexNotification ''item/completed''
                         (obj [(''threadId'', Some (JStr threadId)),
                               (''item'', Some (obj [(''id'', Some (JStr messageId)),
                                                     (''type'', Some (JStr ''agentMessage'')),
                                                     (''text'', Some (JStr text)),
                                                     (''status'', Some (JStr ''completed''))]))])
                         (st1\<lparr>currentMessageId := None\<rparr>)
             in case m_usage m of
                  None \<Rightarrow> st2
                | Some u \<Rightarrow>
                    sendCodexNotification ''thread/tokenUsage/updated''
                      (obj [(''threadId'', Some (JStr threadId)),
                            (''tokenUsage'', Some (obj [(''inputTokens'', u_input u),
                                                        (''outputTokens'', u_output u),
                                                        (''cacheReadTokens'', u_cacheRead u),
                                                        (''cacheWriteTokens'', u_cacheWrite u)]))])
                      st2)
          else st)"
| "translatePiEventToCodex (ToolExecutionStart toolName toolCallId a) st0 =
     (let (threadId, turnId, st) = ids st0;
          st1 = st\<lparr>toolArgsCache := map_set toolCallId (toolName, a) (toolArgsCache st)\<rparr>
      in sendCodexNotification ''item/started''
           (obj [(''threadId'', Some (JStr threadId)),
                 (''item'', Some (obj
                    [(''id'', Some (JStr toolCallId)),
                     (''type'', Some (JStr (toolType toolName))),
                     (''toolType'', Some (JStr (toolType toolName))),
                     (''command'', command_field toolName a),
                     (''cwd'', Some (JStr (cwd st1))),
                     (''status'', Some (JStr ''inProgress'')),
                     (''changes'',
                        if isFileChange toolName then
                          Some (JArr [obj [(''path'', Some (JStr (arg_filePath a))),
                                           (''kind'', Some (JStr (change_kind toolName)))]])
                        else None)]))]) st1)"
| "translatePiEventToCodex (ToolExecutionUpdate toolCallId partialResult) st0 =
     (let (threadId, turnId, st) = ids st0 in
      case find_text partialResult of
        None \<Rightarrow> st
      | Some text \<Rightarrow>
          sendCodexNotification ''item/commandExecution/outputDelta''
            (obj [(''threadId'', Some (JStr threadId)),
                  (''itemId'', Some (JStr toolCallId)),
                  (''delta'', map_option JStr (cb_text text))]) st)"
| "translatePiEventToCodex (ToolExecutionEnd toolName toolCallId result isError eventArgs) st0 =
     (let (threadId, turnId, st) = ids st0;
          a = cached_args (toolArgsCache st) toolCallId eventArgs;
          st1 = st\<lparr>toolArgsCache := map_delete toolCallId (toolArgsCache st)\<rparr>;
          text = find_text result;
          diff = diff_of result;
          filePath = arg_filePath (Some a);
          st2 = sendCodexNotification ''item/completed''
                  (obj [(''threadId'', Some (JStr threadId)),
                        (''item'', Some (obj
                           [(''id'', Some (JStr toolCallId)),
                            (''type'', Some (JStr (toolType toolName))),
                            (''toolType'', Some (JStr (toolType toolName))),
                            (''command'', command_field toolName (Some a)),
                            (''cwd'', Some (JStr (cwd st1))),
                            (''aggregatedOutput'', Some (JStr (orStr (text_of text) []))),
                            (''exitCode'', Some (JNum (if isError then 1 else 0))),
                            (''status'', Some (JStr (if isError then ''error'' else ''completed''))),
                            (''changes'',
                               if isFileChange toolName then
                                 Some (JArr [obj [(''path'', Some (JStr filePath)),
                                                  (''kind'', Some (JStr (change_kind toolName))),
                                                  (''diff'', map_option JStr diff)]])
                               else None)]))]) st1
      in if isFileChange toolName then
           (let st3 = (case diff_fragment filePath diff (orStr (text_of text) []) of
                         None \<Rightarrow> st2
                       | Some fragment \<Rightarrow>
                           st2\<lparr>accumulatedDiff := accumulatedDiff st2 @ [fragment]\<rparr>)
            in if length (accumulatedDiff st3) > 0 then
                 sendCodexNotification ''turn/diff/updated''
                   (obj [(''threadId'', Some (JStr threadId)),
                         (''diff'', Some (JStr (js_join [CHR 0x0A, CHR 0x0A] (accumulatedDiff st3))))])
                   st3
               else st3)
         else st2)"
| "translatePiEventToCodex (AutoRetryStart errorMessage) st0 =
     (let (threadId, turnId, st) = ids st0 in
      error_notification threadId turnId
        (''Retrying: '' @ orStr errorMessage ''Transient error'') True st)"
| "translatePiEventToCodex (AutoRetryEnd success finalError) st0 =
     (let (threadId, turnId, st) = ids st0 in
      if \<not> success then
        (case orElse finalError None of
           Some message \<Rightarrow> error_notification threadId turnId message False st
         | None \<Rightarrow> st)
      else st)"
| "translatePiEventToCodex (HookError hookPath err) st0 =
     (let (threadId, turnId, st) = ids st0 in
      error_notification threadId turnId
        (''Hook error ('' @ orStr hookPath [] @ ''): '' @ orStr err ''Hook error'') False st)"
| "translatePiEventToCodex (OtherEvent t) st0 =
     (let (threadId, turnId, st) = ids st0 in st)"

declare translatePiEventToCodex.simps [simp del]

subsection \<open>The command correlator\<close>

definition error_response :: "json option \<Rightarrow> string \<Rightarrow> bridge \<Rightarrow> bridge" where
  "error_response rid message st = sendCodexResponse rid None (Some (- 32000, message)) st"

definition fallback_model :: "string \<Rightarrow> string \<Rightarrow> bool \<Rightarrow> json" where
  "fallback_model ident displayName isDefault =
     obj [(''id'', Some (JStr ident)), (''model'', Some (JStr ident)),
          (''displayName'', Some (JStr displayName)),
          (''supportedReasoningEfforts'',
             Some (JArr [obj [(''reasoningEffort'', Some (JStr ''default'')),
                              (''description'', Some (JStr ''Standard''))]])),
          (''defaultReasoningEffort'', Some (JStr ''default'')),
          (''isDefault'', Some (JBool isDefault)),
          (''backend'', Some (JStr ''claude''))]"

text \<open>
  What runs when an awaited command is rejected. In \<^verbatim>\<open>handleCodexRequest\<close> the rejection
  is thrown at the await and caught by the outer \<^verbatim>\<open>catch\<close>, which answers with code -32000
  and the error's message; \<^verbatim>\<open>model/list\<close> has a \<^verbatim>\<open>catch\<close> of its own, which answers with
  the hardcoded list.
\<close>

fun on_reject :: "sink \<Rightarrow> string \<Rightarrow> bridge \<Rightarrow> bridge" where
  "on_reject (AfterInitialModel req) message st = error_response (r_id req) message st"
| "on_reject (TurnAfterSetModel rid prompt) message st = error_response rid message st"
| "on_reject (InterruptAfterAbort rid) message st = error_response rid message st"
| "on_reject (ModelListAfterModels rid) message st =
     sendCodexResponse rid
       (Some (obj [(''data'', Some (JArr
          [fallback_model ''claude-opus-4-20250514'' ''Claude Opus 4'' False,
           fallback_model ''claude-sonnet-4-20250514'' ''Claude Sonnet 4'' True,
           fallback_model ''claude-3-5-sonnet-20241022'' ''Claude 3.5 Sonnet'' False]))]))
       None st"
| "on_reject Ignored message st = st"

definition sendPiCommand :: "pi_command \<Rightarrow> sink \<Rightarrow> bridge \<Rightarrow> bridge" where
  "sendPiCommand command k st =
     (case piProcess st of
        None \<Rightarrow> on_reject k ''Pi process not running'' st
      | Some p \<Rightarrow>
          (let (i, st1) = uuidv4 st in
           st1\<lparr>pendingRequests := map_set i k (pendingRequests st1),
               piStdin := piStdin st1 @ [(i, command)]\<rparr>))"

subsection \<open>The request router\<close>

definition await_io :: "io_wait \<Rightarrow> bridge \<Rightarrow> bridge" where
  "await_io w st = st\<lparr>ioWaits := ioWaits st @ [(ioCount st, w)], ioCount := Suc (ioCount st)\<rparr>"

definition handle_initialize :: "json option \<Rightarrow> bridge \<Rightarrow> bridge" where
  "handle_initialize rid st =
     sendCodexResponse rid
       (Some (obj [(''protocolVersion'', Some (JStr ''2.0'')),
                   (''capabilities'', Some (obj [(''threads'', Some (JBool True)),
                                                 (''turns'', Some (JBool True)),
                                                 (''models'', Some (JBool True))]))]))
       None st"

definition handle_thread_start :: "json option \<Rightarrow> params \<Rightarrow> bridge \<Rightarrow> bridge" where
  "handle_thread_start rid ps st =
     (let (u, st1) = uuidv4 st;
          st2 = st1\<lparr>currentThreadId := Some u, cwd := orStr (p_cwd ps) (processCwd st1)\<rparr>;
          st3 = sendPiCommand (PiCommand ''new_session'' []) Ignored st2
      in sendCodexResponse rid
           (Some (obj [(''thread'', Some (obj [(''id'', Some (str_or_null (currentThreadId st3))),
                                               (''name'', Some (JStr ''New Thread'')),
                                               (''createdAt'', Some (JStr (clock st3)))]))]))
           None st3)"

definition handle_thread_resume :: "json option \<Rightarrow> params \<Rightarrow> bridge \<Rightarrow> bridge" where
  "handle_thread_resume rid ps st =
     (let (t, st1) = (case orElse (p_threadId ps) None of
                        Some t \<Rightarrow> (t, st) | None \<Rightarrow> uuidv4 st);
          st2 = st1\<lparr>currentThreadId := Some t\<rparr>
      in sendCodexResponse rid
           (Some (obj [(''thread'', Some (obj [(''id'', Some (JStr t)),
                                               (''items'', Some (JArr [])),
                                               (''status'', Some (JStr ''ready''))]))]))
           None st2)"

definition handle_thread_list :: "json option \<Rightarrow> bridge \<Rightarrow> bridge" where
  "handle_thread_list rid st =
     sendCodexResponse rid
       (Some (obj [(''threads'', Some (JArr
          (case orElse (currentThreadId st) None of
             Some t \<Rightarrow> [obj [(''id'', Some (JStr t)),
                              (''name'', Some (JStr ''Current Session'')),
                              (''createdAt'', Some (JStr (clock st)))]]
           | None \<Rightarrow> [])))]))
       None st"

definition handle_thread_archive :: "json option \<Rightarrow> bridge \<Rightarrow> bridge" where
  "handle_thread_archive rid st =
     sendCodexResponse rid (Some (obj [(''success'', Some (JBool True))])) None
       (st\<lparr>currentThreadId := None\<rparr>)"

text \<open>The provider guessed from the model name (the \<^verbatim>\<open>startsWith\<close> / \<^verbatim>\<open>includes\<close> chain).\<close>

definition guess_provider :: "string \<Rightarrow> string" where
  "guess_provider model =
     (if prefix ''claude'' model then ''anthropic''
      else if prefix ''gpt'' model \<or> prefix ''o1'' model \<or> prefix ''o3'' model then ''openai''
      else if prefix ''gemini'' model then ''google''
      else if prefix ''mistral'' model \<or> prefix ''codestral'' model \<or> prefix ''devstral'' model
        then ''mistral''
      else if prefix ''grok'' model \<or> js_includes model ''pickle'' \<or> js_includes model ''glm''
              \<or> js_includes model ''minimax'' then ''opencode''
      else ''anthropic'')"

text \<open>Provider and inner model id of the \<^verbatim>\<open>model\<close> parameter: split at the first \<^verbatim>\<open>/\<close> when
  there is one, else looked up in \<^verbatim>\<open>modelProviderMap\<close> and, failing that, guessed.
  (\<^verbatim>\<open>split\<close> never returns the empty array, so \<^verbatim>\<open>parts[0]\<close> exists.)\<close>

definition parse_model :: "(string \<times> string) list \<Rightarrow> string \<Rightarrow> string \<times> string" where
  "parse_model registry model =
     (if js_includes model ''/'' then
        (case js_split (CHR ''/'') model of
           p # rest \<Rightarrow> (p, js_join ''/'' rest)
         | [] \<Rightarrow> ([], []))
      else
        (let provider = orStr (map_of registry model) [] in
         (if provider = [] then guess_provider model else provider, model)))"

text \<open>The text of a \<^verbatim>\<open>turn/start\<close>: the \<^verbatim>\<open>text\<close> of the input blocks of type \<^verbatim>\<open>text\<close>,
  joined with newlines (\<^verbatim>\<open>join\<close> prints an undefined element as the empty string).\<close>

definition input_text :: "params \<Rightarrow> string" where
  "input_text ps =
     (let textInputs = (case p_input ps of None \<Rightarrow> []
                        | Some bs \<Rightarrow> filter (\<lambda>i. ib_type i = Some ''text'') bs)
      in js_join [CHR 0x0A]
           (map (\<lambda>i. case ib_text i of None \<Rightarrow> [] | Some x \<Rightarrow> x) textInputs))"

definition turn_response :: "json option \<Rightarrow> string \<Rightarrow> bridge \<Rightarrow> bridge" where
  "turn_response rid message st =
     sendPiCommand (PiCommand ''prompt'' [(''message'', message)]) Ignored
       (sendCodexResponse rid
          (Some (obj [(''turn'', Some (obj [(''id'', Some (str_or_null (currentTurnId st))),
                                            (''items'', Some (JArr [])),
                                            (''status'', Some (JStr ''inProgress''))]))]))
          None st)"

definition handle_turn_start :: "json option \<Rightarrow> params \<Rightarrow> bridge \<Rightarrow> bridge" where
  "handle_turn_start rid ps st =
     (let (t, st1) = (case orElse (orElse (p_threadId ps) (currentThreadId st)) None of
                        Some t \<Rightarrow> (t, st) | None \<Rightarrow> uuidv4 st);
          (u, st2) = uuidv4 (st1\<lparr>currentThreadId := Some t\<rparr>);
          st3 = st2\<lparr>currentTurnId := Some u\<rparr>;
          message = input_text ps
      in if message = [] then
           sendCodexResponse rid None (Some (- 32000, ''No text input provided'')) st3
         else
           (case orElse (p_model ps) None of
              None \<Rightarrow> turn_response rid message st3
            | Some model \<Rightarrow>
                if model \<noteq> currentModel st3 then
                  (let (provider, modelId) = parse_model (modelProviderMap st3) model;
                       st4 = st3\<lparr>currentModel := model, currentProvider := provider\<rparr>
                   in sendPiCommand
                        (PiCommand ''set_model'' [(''provider'', provider), (''modelId'', modelId)])
                        (TurnAfterSetModel rid message) st4)
                else turn_response rid message st3))"

definition handle_interrupt :: "json option \<Rightarrow> bridge \<Rightarrow> bridge" where
  "handle_interrupt rid st = sendPiCommand (PiCommand ''abort'' []) (InterruptAfterAbort rid) st"

definition handle_model_list :: "json option \<Rightarrow> bridge \<Rightarrow> bridge" where
  "handle_model_list rid st =
     sendPiCommand (PiCommand ''get_available_models'' []) (ModelListAfterModels rid) st"

definition compositeId :: "model_entry \<Rightarrow> string" where
  "compositeId m = me_provider m @ ''/'' @ me_id m"

definition register_models :: "model_entry list \<Rightarrow> (string \<times> string) list \<Rightarrow> (string \<times> string) list" where
  "register_models models registry =
     fold (\<lambda>m reg. map_set (compositeId m) (me_provider m) reg) models registry"

definition model_json :: "string \<Rightarrow> model_entry \<Rightarrow> json" where
  "model_json current m =
     obj [(''id'', Some (JStr (compositeId m))),
          (''model'', Some (JStr (me_id m))),
          (''provider'', Some (JStr (me_provider m))),
          (''displayName'', Some (JStr (orStr (me_name m) (me_id m)))),
          (''description'', Some (JStr (me_provider m @ '' model''))),
          (''supportedReasoningEfforts'',
             Some (JArr (if me_reasoning m then
                [obj [(''reasoningEffort'', Some (JStr ''low'')),
                      (''description'', Some (JStr ''Light reasoning''))],
                 obj [(''reasoningEffort'', Some (JStr ''medium'')),
                      (''description'', Some (JStr ''Balanced''))],
                 obj [(''reasoningEffort'', Some (JStr ''high'')),
                      (''description'', Some (JStr ''Deep reasoning''))]]
              else
                [obj [(''reasoningEffort'', Some (JStr ''default'')),
                      (''description'', Some (JStr ''Standard''))]]))),
          (''defaultReasoningEffort'',
             Some (JStr (if me_reasoning m then ''medium'' else ''default''))),
          (''isDefault'', Some (JBool (compositeId m = current))),
          (''backend'', Some (JStr ''pi''))]"

definition model_list_response :: "json option \<Rightarrow> payload \<Rightarrow> bridge \<Rightarrow> bridge" where
  "model_list_response rid result st =
     (let models = (case result of Models ms \<Rightarrow> ms | _ \<Rightarrow> []);
          st1 = st\<lparr>modelProviderMap := register_models models (modelProviderMap st)\<rparr>
      in sendCodexResponse rid
           (Some (obj [(''data'', Some (JArr (map (model_json (currentModel st1)) models)))]))
           None st1)"

definition handle_auth_login :: "json option \<Rightarrow> params \<Rightarrow> bridge \<Rightarrow> bridge" where
  "handle_auth_login rid ps st =
     (case orElse (p_provider ps) None of
        None \<Rightarrow> sendCodexResponse rid None (Some (- 32602, ''provider parameter required'')) st
      | Some provider \<Rightarrow>
          sendCodexResponse rid
            (Some (obj [(''success'', Some (JBool False)),
                        (''message'', Some (JStr (''To authenticate with '' @ provider @
                                                  '', run: pi --provider '' @ provider))),
                        (''instructions'', Some (JArr
                           [JStr ''1. Open Terminal'',
                            JStr (''2. Run: pi --provider '' @ provider),
                            JStr ''3. Follow the OAuth flow in your browser'',
                            JStr ''4. Return to CodexMonitor and reconnect the workspace'']))]))
            None st)"

text \<open>The \<^verbatim>\<open>switch (method)\<close> of \<^verbatim>\<open>handleCodexRequest\<close>.\<close>

definition dispatch :: "codex_request \<Rightarrow> bridge \<Rightarrow> bridge" where
  "dispatch req st =
     (let rid = r_id req; method = r_method req; ps = r_params req in
      if method = ''initialize'' then handle_initialize rid st
      else if method = ''thread/start'' then handle_thread_start rid ps st
      else if method = ''thread/resume'' then handle_thread_resume rid ps st
      else if method = ''thread/list'' then handle_thread_list rid st
      else if method = ''thread/archive'' then handle_thread_archive rid st
      else if method = ''turn/start'' then handle_turn_start rid ps st
      else if method = ''turn/interrupt'' \<or> method = ''thread/interrupt'' then
        handle_interrupt rid st
      else if method = ''model/list'' then handle_model_list rid st
      else if method = ''skills/list'' then
        sendCodexResponse rid (Some (obj [(''skills'', Some (JArr []))])) None st
      else if method = ''account/rateLimits'' \<or> method = ''account/rateLimits/read'' then
        await_io (RateLimitsFetch rid) st
      else if method = ''codex/respondToRequest'' then
        sendCodexResponse rid (Some (obj [(''success'', Some (JBool True))])) None st
      else if method = ''auth/status'' then await_io (AuthStatusRead rid) st
      else if method = ''auth/login'' then handle_auth_login rid ps st
      else sendCodexResponse rid None (Some (- 32601, ''Method not found: '' @ method)) st)"

text \<open>What runs when an awaited command is fulfilled.\<close>

fun on_resolve :: "sink \<Rightarrow> payload \<Rightarrow> bridge \<Rightarrow> bridge" where
  "on_resolve (AfterInitialModel req) d st = dispatch req st"
| "on_resolve (TurnAfterSetModel rid message) d st = turn_response rid message st"
| "on_resolve (InterruptAfterAbort rid) d st =
     sendCodexResponse rid (Some (obj [(''success'', Some (JBool True))])) None
       (st\<lparr>isProcessing := False\<rparr>)"
| "on_resolve (ModelListAfterModels rid) d st = model_list_response rid d st"
| "on_resolve Ignored d st = st"

text \<open>\<^verbatim>\<open>ensurePiProcess\<close>, for the handler of a request: with a live child it returns at
  once and the handler goes on; without one it waits for the file-system check, then
  spawns, waits 100 ms, sends \<^verbatim>\<open>set_model\<close> and waits for its answer (the cases
  \<open>AccessCheck\<close> and \<open>StartupDelay\<close> of \<open>io_done\<close> and the sink \<open>AfterInitialModel\<close>),
  and the handler goes on after that.\<close>

definition ensurePiProcess :: "codex_request \<Rightarrow> bridge \<Rightarrow> bridge" where
  "ensurePiProcess req st =
     (case piProcess st of
        Some p \<Rightarrow> dispatch req st
      | None \<Rightarrow> await_io (AccessCheck req) st)"

text \<open>\<^verbatim>\<open>handleCodexRequest\<close>: \<^verbatim>\<open>await ensurePiProcess()\<close>, then the switch.\<close>

definition handleCodexRequest :: "codex_request \<Rightarrow> bridge \<Rightarrow> bridge" where
  "handleCodexRequest req st = ensurePiProcess req st"

definition spawn_pi :: "bridge \<Rightarrow> bridge" where
  "spawn_pi st =
     st\<lparr>piProcess := Some (spawnCount st), piReader := Some (spawnCount st),
        spawnCount := Suc (spawnCount st)\<rparr>"

definition json_of :: "payload \<Rightarrow> json" where
  "json_of d = (case d of Json j \<Rightarrow> j | _ \<Rightarrow> JNull)"

text \<open>The continuation of a handler whose file-system, timer or network await has settled.
  The access check of \<^verbatim>\<open>ensurePiProcess\<close> chooses the executable either way; the
  rate-limit fetch and the credentials read fall back to a placeholder on failure.\<close>

fun io_done :: "io_wait \<Rightarrow> outcome \<Rightarrow> bridge \<Rightarrow> bridge" where
  "io_done (AccessCheck req) r st = await_io (StartupDelay req) (spawn_pi st)"
| "io_done (StartupDelay req) r st =
     sendPiCommand
       (PiCommand ''set_model'' [(''provider'', ''anthropic''), (''modelId'', currentModel st)])
       (AfterInitialModel req) st"
| "io_done (RateLimitsFetch rid) (Resolved d) st =
     sendCodexResponse rid (Some (obj [(''rateLimits'', Some (json_of d))])) None st"
| "io_done (RateLimitsFetch rid) (Rejected e) st =
     sendCodexResponse rid
       (Some (obj [(''primary'', Some JNull), (''secondary'', Some JNull),
                   (''credits'', Some JNull)])) None st"
| "io_done (AuthStatusRead rid) (Resolved d) st =
     sendCodexResponse rid (Some (obj [(''providers'', Some (json_of d))])) None st"
| "io_done (AuthStatusRead rid) (Rejected e) st =
     sendCodexResponse rid (Some (obj [(''providers'', Some (JArr []))])) None st"

definition handlePiMessage :: "pi_msg \<Rightarrow> bridge \<Rightarrow> bridge" where
  "handlePiMessage msg st =
     (case msg of
        Response response \<Rightarrow>
          (case orElse (pr_id response) None of
             None \<Rightarrow> st
           | Some i \<Rightarrow>
               (case map_of (pendingRequests st) i of
                  None \<Rightarrow> st
                | Some k \<Rightarrow>
                    (let st1 = st\<lparr>pendingRequests := map_delete i (pendingRequests st)\<rparr> in
                     if pr_success response then on_resolve k (pr_data response) st1
                     else on_reject k (orStr (pr_error response) ''Unknown error'') st1)))
      | Event event \<Rightarrow> translatePiEventToCodex event st)"

subsection \<open>The event loop\<close>

text \<open>A line of the client: blank, not JSON, or a JSON object, given by what
  \<^verbatim>\<open>JSON.parse\<close> has read as its \<^verbatim>\<open>id\<close>, \<^verbatim>\<open>method\<close> and \<^verbatim>\<open>params\<close>. The handler of \<^verbatim>\<open>main\<close>
  drops the first two and any object without a method.\<close>

datatype stdin_line = BlankLine | BadJson | JsonLine "json option" "string option" params

definition main_line :: "stdin_line \<Rightarrow> bridge \<Rightarrow> bridge" where
  "main_line l st =
     (case l of
        BlankLine \<Rightarrow> st
      | BadJson \<Rightarrow> st
      | JsonLine rid m ps \<Rightarrow>
          (case orElse m None of
             None \<Rightarrow> st
           | Some method \<Rightarrow> handleCodexRequest (CodexRequest rid method ps) st))"

text \<open>Everything the process reacts to: a line on stdin, a line on the child's stdout
  (\<open>None\<close> when it does not parse), the child's exit, a settled file-system, timer or network
  operation, and the passing of time.\<close>

datatype input =
    StdinLine stdin_line
  | PiStdout "pi_msg option"
  | PiExit
  | IoDone nat outcome
  | Tick string

fun step :: "input \<Rightarrow> bridge \<Rightarrow> bridge" where
  "step (StdinLine l) st = main_line l st"
| "step (PiStdout None) st = st"
| "step (PiStdout (Some msg)) st = handlePiMessage msg st"
| "step PiExit st = st\<lparr>piProcess := None, piReader := None\<rparr>"
| "step (IoDone n r) st =
     (case map_of (ioWaits st) n of
        None \<Rightarrow> st
      | Some w \<Rightarrow> io_done w r (st\<lparr>ioWaits := map_delete n (ioWaits st)\<rparr>))"
| "step (Tick t) st = st\<lparr>clock := t\<rparr>"

definition run :: "input list \<Rightarrow> bridge \<Rightarrow> bridge" where
  "run ins st = fold step ins st"

text \<open>The state after the module is loaded and \<^verbatim>\<open>main\<close> has sent \<^verbatim>\<open>codex/connected\<close>.\<close>

definition initial :: "string \<Rightarrow> string \<Rightarrow> bridge" where
  "initial dir t =
     sendCodexNotification ''codex/connected'' (JObj [])
       \<lparr>piProcess = None, piReader = None, currentThreadId = None, currentTurnId = None,
        currentMessageId = None, isProcessing = False, pendingRequests = [],
        currentModel = ''claude-sonnet-4-20250514'', currentProvider = ''anthropic'',
        cwd = dir, toolArgsCache = [], accumulatedDiff = [], modelProviderMap = [],
        stdout = [], piStdin = [], ioWaits = [], ioCount = 0, uuidCount = 0, spawnCount = 0,
        processCwd = dir, clock = t\<rparr>"

section \<open>Observations on a run\<close>

subsection \<open>What was written to stdout\<close>

text \<open>The payload of a \<^verbatim>\<open>turn/diff/updated\<close> notification, and the payloads among the lines
  written so far, in order.\<close>

definition diff_payload :: "json \<Rightarrow> string option" where
  "diff_payload v =
     (if field ''method'' v = Some (JStr ''turn/diff/updated'') then
        (case field ''params'' v of
           None \<Rightarrow> None
         | Some p \<Rightarrow> (case field ''diff'' p of Some (JStr d) \<Rightarrow> Some d | _ \<Rightarrow> None))
      else None)"

definition diff_payloads :: "bridge \<Rightarrow> string list" where
  "diff_payloads st = List.map_filter diff_payload (stdout st)"

text \<open>A line is a response when it has no \<^verbatim>\<open>method\<close> and has a \<^verbatim>\<open>result\<close> or an \<^verbatim>\<open>error\<close>; it
  is a notification when it has a \<^verbatim>\<open>method\<close> and no \<^verbatim>\<open>id\<close>.\<close>

definition is_response :: "json \<Rightarrow> bool" where
  "is_response v =
     (field ''method'' v = None \<and> (field ''result'' v \<noteq> None \<or> field ''error'' v \<noteq> None))"

definition is_notification :: "json \<Rightarrow> bool" where
  "is_notification v = (field ''method'' v \<noteq> None \<and> field ''id'' v = None)"

definition well_formed :: "bridge \<Rightarrow> bool" where
  "well_formed st = list_all (\<lambda>v. is_response v \<or> is_notification v) (stdout st)"

text \<open>The \<^verbatim>\<open>item\<close> of an item notification, and the notifications that open or close an
  assistant-message item.\<close>

definition item_of :: "json \<Rightarrow> json option" where
  "item_of v = (case field ''params'' v of None \<Rightarrow> None | Some p \<Rightarrow> field ''item'' p)"

definition item_id :: "json \<Rightarrow> json option" where
  "item_id v = (case item_of v of None \<Rightarrow> None | Some it \<Rightarrow> field ''id'' it)"

definition opens_or_closes_item :: "json \<Rightarrow> bool" where
  "opens_or_closes_item v =
     (field ''method'' v = Some (JStr ''item/started'') \<or>
      field ''method'' v = Some (JStr ''item/completed''))"

definition message_item :: "json \<Rightarrow> bool" where
  "message_item v =
     (opens_or_closes_item v \<and>
      (case item_of v of None \<Rightarrow> False | Some it \<Rightarrow> field ''type'' it = Some (JStr ''agentMessage'')))"

text \<open>The notifications among the lines written so far, in order.\<close>

definition notifications :: "bridge \<Rightarrow> json list" where
  "notifications st = filter (\<lambda>v. field ''method'' v \<noteq> None) (stdout st)"

subsection \<open>Requests answered and requests owed\<close>

text \<open>The number of lines written so far that carry the id \<open>R\<close>.\<close>

definition answered :: "json \<Rightarrow> bridge \<Rightarrow> nat" where
  "answered R st = length (filter (\<lambda>v. field ''id'' v = Some R) (stdout st))"

text \<open>A suspended handler owes a response to \<open>R\<close> when it belongs to a request with that id;
  the promises of \<^verbatim>\<open>new_session\<close> and \<^verbatim>\<open>prompt\<close> owe none.\<close>

fun sink_owes :: "json \<Rightarrow> sink \<Rightarrow> bool" where
  "sink_owes R (AfterInitialModel req) = (r_id req = Some R)"
| "sink_owes R (TurnAfterSetModel rid message) = (rid = Some R)"
| "sink_owes R (InterruptAfterAbort rid) = (rid = Some R)"
| "sink_owes R (ModelListAfterModels rid) = (rid = Some R)"
| "sink_owes R Ignored = False"

fun io_owes :: "json \<Rightarrow> io_wait \<Rightarrow> bool" where
  "io_owes R (AccessCheck req) = (r_id req = Some R)"
| "io_owes R (StartupDelay req) = (r_id req = Some R)"
| "io_owes R (RateLimitsFetch rid) = (rid = Some R)"
| "io_owes R (AuthStatusRead rid) = (rid = Some R)"

definition owed :: "json \<Rightarrow> bridge \<Rightarrow> nat" where
  "owed R st =
     length (filter (\<lambda>e. sink_owes R (snd e)) (pendingRequests st)) +
     length (filter (\<lambda>e. io_owes R (snd e)) (ioWaits st))"

text \<open>The requests with id \<open>R\<close> accounted for: answered, or owed by a suspended handler.\<close>

definition balance :: "json \<Rightarrow> bridge \<Rightarrow> nat" where
  "balance R st = answered R st + owed R st"

text \<open>The inputs that are requests with id \<open>R\<close>: lines with that id and a method.\<close>

fun is_request :: "json \<Rightarrow> input \<Rightarrow> bool" where
  "is_request R (StdinLine (JsonLine rid m ps)) = (rid = Some R \<and> orElse m None \<noteq> None)"
| "is_request R i = False"

definition requests :: "json \<Rightarrow> input list \<Rightarrow> nat" where
  "requests R ins = length (filter (is_request R) ins)"

text \<open>The ids that pass through \<^verbatim>\<open>JSON.parse\<close> and \<^verbatim>\<open>JSON.stringify\<close> unchanged, digit for
  digit: strings, and integers of magnitude below \<open>2 ^ 53\<close>. An integer beyond is rounded to
  a double of magnitude \<open>2 ^ 53\<close> or more, so none is ever answered under one of these ids.\<close>

fun exact_id :: "json \<Rightarrow> bool" where
  "exact_id (JStr s) = True"
| "exact_id (JNum n) = (\<bar>n\<bar> < 2 ^ 53)"
| "exact_id v = False"

text \<open>The correlator's keys are identifiers drawn earlier, each used once; likewise the
  tickets of the file-system, timer and network waits.\<close>

definition fresh :: "bridge \<Rightarrow> bool" where
  "fresh st =
     (distinct (map fst (pendingRequests st)) \<and>
      (\<forall>i \<in> set (map fst (pendingRequests st)). \<exists>n < uuidCount st. i = uuid_str n) \<and>
      distinct (map fst (ioWaits st)) \<and>
      (\<forall>n \<in> set (map fst (ioWaits st)). n < ioCount st))"

text \<open>The sink stored in the pending-request map under a command id, if any.\<close>

definition pending_at :: "string \<Rightarrow> bridge \<Rightarrow> sink option" where
  "pending_at c st = map_of (pendingRequests st) c"

subsection \<open>The text of a turn\<close>

text \<open>The texts of the input blocks of type \<^verbatim>\<open>text\<close>, in order: the strings that
  \<^verbatim>\<open>turn/start\<close> joins with newlines.\<close>

definition block_text :: "input_block \<Rightarrow> string" where
  "block_text i = (case ib_text i of None \<Rightarrow> [] | Some x \<Rightarrow> x)"

definition block_texts :: "params \<Rightarrow> string list" where
  "block_texts ps =
     (case p_input ps of
        None \<Rightarrow> []
      | Some bs \<Rightarrow> map block_text (filter (\<lambda>i. ib_type i = Some ''text'') bs))"

subsection \<open>Tool calls in flight\<close>

text \<open>The tool-call ids that a sequence of inputs has started and not ended since, given
  those in flight before it.\<close>

fun started_not_ended :: "input list \<Rightarrow> string set \<Rightarrow> string set" where
  "started_not_ended [] S = S"
| "started_not_ended (PiStdout (Some (Event (ToolExecutionStart n c a))) # ins) S =
     started_not_ended ins (insert c S)"
| "started_not_ended (PiStdout (Some (Event (ToolExecutionEnd n c r e a))) # ins) S =
     started_not_ended ins (S - {c})"
| "started_not_ended (i # ins) S = started_not_ended ins S"

subsection \<open>Scenarios\<close>

text \<open>A client whose first line is \<^verbatim>\<open>{"id":1,"method":"initialize"}\<close>: no child is running, the
  file-system check fails (installed \<^verbatim>\<open>pi\<close>), the child is spawned and the start-up delay
  passes.\<close>

definition no_params :: params where
  "no_params = Params None None None None None"

definition cold_inputs :: "string \<Rightarrow> params \<Rightarrow> input list" where
  "cold_inputs method ps =
     [StdinLine (JsonLine (Some (JNum 1)) (Some method) ps),
      IoDone 0 (Rejected ''ENOENT''), IoDone 1 (Resolved NoPayload)]"

definition cold_start :: "string \<Rightarrow> params \<Rightarrow> bridge" where
  "cold_start method ps = run (cold_inputs method ps) (initial ''/w'' ''t0'')"

text \<open>The same bridge once the child has acknowledged \<^verbatim>\<open>set_model\<close>.\<close>

definition acknowledge :: input where
  "acknowledge = PiStdout (Some (Response (PiResponse (Some ''uuid-0'') True NoPayload None)))"

definition warm_start :: "string \<Rightarrow> params \<Rightarrow> bridge" where
  "warm_start method ps = step acknowledge (cold_start method ps)"

text \<open>The child exits before it has acknowledged \<^verbatim>\<open>set_model\<close>; the client then sends
  \<^verbatim>\<open>{"id":2,"method":"thread/list"}\<close>, for which a second child is spawned, and that child
  acknowledges its \<^verbatim>\<open>set_model\<close>.\<close>

definition respawn :: "input list" where
  "respawn =
     [StdinLine (JsonLine (Some (JNum 2)) (Some ''thread/list'') no_params),
      IoDone 2 (Rejected ''ENOENT''), IoDone 3 (Resolved NoPayload),
      PiStdout (Some (Response (PiResponse (Some ''uuid-1'') True NoPayload None)))]"

definition exit_and_respawn :: "input list" where
  "exit_and_respawn = PiExit # respawn"

text \<open>Parameter sets of \<^verbatim>\<open>turn/start\<close>: one whose only text block is empty (beside an
  image), one that says \<^verbatim>\<open>hi\<close> and selects the model \<^verbatim>\<open>gpt-4\<close> by its bare name.\<close>

definition empty_turn :: params where
  "empty_turn =
     Params None (Some ''th1'')
       (Some [InputBlock (Some ''image'') (Some ''x.png''), InputBlock (Some ''text'') (Some [])])
       None None"

definition gpt_turn :: params where
  "gpt_turn =
     Params None None (Some [InputBlock (Some ''text'') (Some ''hi'')]) (Some ''gpt-4'') None"

text \<open>Two more: one with two text blocks, both empty, and one that selects \<^verbatim>\<open>gpt-4\<close> and
  has no input at all.\<close>

definition two_empty_texts :: params where
  "two_empty_texts =
     Params None (Some ''th1'')
       (Some [InputBlock (Some ''text'') (Some []), InputBlock (Some ''text'') (Some [])])
       None None"

definition gpt_no_text :: params where
  "gpt_no_text = Params None None None (Some ''gpt-4'') None"

subsection \<open>The translator's own state\<close>

text \<open>The three variables that only the event translator writes.\<close>

definition translator_state :: "bridge \<Rightarrow> (string \<times> string \<times> args option) list \<times> string list \<times> string option" where
  "translator_state st = (toolArgsCache st, accumulatedDiff st, currentMessageId st)"

text \<open>Two edits with a diff body each, and the start of an assistant message.\<close>

definition two_edits :: "input list" where
  "two_edits =
     [PiStdout (Some (Event (ToolExecutionEnd ''edit'' ''t1''
        (Some (ToolResult None (Some ''@@ A''))) False (Some [(''path'', ''a'')])))),
      PiStdout (Some (Event (ToolExecutionEnd ''edit'' ''t2''
        (Some (ToolResult None (Some ''@@ B''))) False (Some [(''path'', ''b'')]))))]"

definition assistant_start :: input where
  "assistant_start = PiStdout (Some (Event (MessageStart (Some (PiMessage (Some ''assistant'') None None)))))"

section \<open>Properties\<close>

subsection \<open>Strings\<close>

lemma js_split_not_Nil: "js_split c s \<noteq> []"
  by (induction s) (auto split: list.splits)

lemma length_js_split: "length (js_split c s) = Suc (length (filter (\<lambda>x. x = c) s))"
  by (induction s) (auto split: list.splits)

lemma js_join_Cons_Cons: "js_join sep ((x # a) # l) = x # js_join sep (a # l)"
  by (cases l) auto

text \<open>Splitting at a character and joining with it gives the string back: the pieces of
  \<open>js_split\<close> are the lines of the text.\<close>

lemma js_join_split: "js_join [c] (js_split c s) = s"
proof (induction s)
  case Nil
  then show ?case by simp
next
  case (Cons x xs)
  then show ?case
    by (cases "js_split c xs") (auto simp: js_split_not_Nil js_join_Cons_Cons split: list.splits)
qed

lemma lower_tool_names:
  "js_toLowerCase ''Write'' = ''write''" "js_toLowerCase ''write'' = ''write''"
  "js_toLowerCase ''Edit'' = ''edit''" "js_toLowerCase ''edit'' = ''edit''"
  by (simp_all add: js_toLowerCase_def lower_char_def)

text \<open>The file-change tools of kind \<^verbatim>\<open>create\<close> are \<^verbatim>\<open>write\<close> and \<^verbatim>\<open>Write\<close>.\<close>

lemma create_kind:
  "isFileChange n \<and> change_kind n = ''create'' \<longleftrightarrow> n = ''write'' \<or> n = ''Write''"
  by (auto simp: isFileChange_def change_kind_def lower_tool_names)

subsection \<open>The translator's preamble\<close>

lemma ids_frame:
  "stdout (snd (snd (ids st))) = stdout st"
  "accumulatedDiff (snd (snd (ids st))) = accumulatedDiff st"
  "toolArgsCache (snd (snd (ids st))) = toolArgsCache st"
  "currentMessageId (snd (snd (ids st))) = currentMessageId st"
  by (simp_all add: ids_def uuidv4_def Let_def split: option.splits)

subsection \<open>Diff fragments\<close>

text \<open>
  Claim C5. At \<^verbatim>\<open>tool_execution_end\<close> for a file-change tool, the translator appends one
  fragment to the diff accumulator. When the agent supplied a (non-empty) diff body, the
  fragment is \<^verbatim>\<open>--- a/<path>\n+++ b/<path>\n\<close> followed by the body. When it supplied none,
  the tool is of kind \<^verbatim>\<open>create\<close> and the output text is not empty, the fragment is
  \<^verbatim>\<open>--- /dev/null\n+++ b/<path>\n@@ -0,0 +1,<N> @@\n\<close> followed by the lines of the output
  text, each prefixed with \<^verbatim>\<open>+\<close> and joined by newlines, where N is the number of lines
  (one more than the number of newline characters). The path is taken from the arguments
  cached at \<^verbatim>\<open>tool_execution_start\<close>, or from the event when none were cached.
\<close>

theorem diff_fragment_appended:
  fixes toolName toolCallId :: string and result isError eventArgs and st :: bridge
  assumes "isFileChange toolName"
  defines "st' \<equiv>
    translatePiEventToCodex (ToolExecutionEnd toolName toolCallId result isError eventArgs) st"
    and "filePath \<equiv> arg_filePath (Some (cached_args (toolArgsCache st) toolCallId eventArgs))"
  shows "(\<forall>d. diff_of result = Some d \<and> d \<noteq> [] \<longrightarrow>
            accumulatedDiff st' = accumulatedDiff st @
              [''--- a/'' @ filePath @ [CHR 0x0A] @ ''+++ b/'' @ filePath @ [CHR 0x0A] @ d]) \<and>
         (\<forall>t. change_kind toolName = ''create'' \<and> orElse (diff_of result) None = None \<and>
              text_of (find_text result) = Some t \<and> t \<noteq> [] \<longrightarrow>
            accumulatedDiff st' = accumulatedDiff st @
              [''--- /dev/null'' @ [CHR 0x0A] @ ''+++ b/'' @ filePath @ [CHR 0x0A] @
               ''@@ -0,0 +1,'' @ show_nat (Suc (length (filter (\<lambda>x. x = CHR 0x0A) t))) @
               '' @@'' @ [CHR 0x0A] @
               js_join [CHR 0x0A] (map (\<lambda>l. CHR ''+'' # l) (js_split (CHR 0x0A) t))])"
  using assms(1) unfolding st'_def filePath_def
  by (auto simp: translatePiEventToCodex.simps Let_def case_prod_beta ids_frame
        diff_fragment_def sendCodexNotification_def orElse_def orStr_def length_js_split)

text \<open>The file-write scenario: \<^verbatim>\<open>write\<close> to \<^verbatim>\<open>/f.txt\<close> with output \<^verbatim>\<open>hello\nworld\<close> and no diff
  body, then an \<^verbatim>\<open>edit\<close> of the same file with a diff body.\<close>

theorem diff_fragment_appended_witness:
  "isFileChange ''write'' \<and>
   accumulatedDiff
     (translatePiEventToCodex
        (ToolExecutionEnd ''write'' ''t1''
           (Some (ToolResult (Some [ContentBlock (Some ''text'')
                                      (Some (''hello'' @ [CHR 0x0A] @ ''world''))]) None))
           False None)
        (translatePiEventToCodex (ToolExecutionStart ''write'' ''t1'' (Some [(''path'', ''/f.txt'')]))
           (initial ''/w'' ''t0''))) =
     [''--- /dev/null'' @ [CHR 0x0A] @ ''+++ b//f.txt'' @ [CHR 0x0A] @ ''@@ -0,0 +1,2 @@'' @
      [CHR 0x0A] @ ''+hello'' @ [CHR 0x0A] @ ''+world''] \<and>
   isFileChange ''edit'' \<and>
   accumulatedDiff
     (translatePiEventToCodex
        (ToolExecutionEnd ''edit'' ''t2'' (Some (ToolResult None (Some ''@@ -1 +1 @@''))) False
           (Some [(''path'', ''/f.txt'')]))
        (initial ''/w'' ''t0'')) =
     [''--- a//f.txt'' @ [CHR 0x0A] @ ''+++ b//f.txt'' @ [CHR 0x0A] @ ''@@ -1 +1 @@'']"
proof -
  let ?st0 = "translatePiEventToCodex
                (ToolExecutionStart ''write'' ''t1'' (Some [(''path'', ''/f.txt'')]))
                (initial ''/w'' ''t0'')"
  let ?res = "Some (ToolResult (Some [ContentBlock (Some ''text'')
                                      (Some (''hello'' @ [CHR 0x0A] @ ''world''))]) None)"
  have fc: "isFileChange ''write''"
    by (simp add: isFileChange_def)
  have cache: "toolArgsCache ?st0 = [(''t1'', ''write'', Some [(''path'', ''/f.txt'')])]"
    and acc: "accumulatedDiff ?st0 = []"
    by (simp_all add: translatePiEventToCodex.simps Let_def case_prod_beta ids_frame
          sendCodexNotification_def initial_def)
  have hyps: "change_kind ''write'' = ''create'' \<and> orElse (diff_of ?res) None = None \<and>
      text_of (find_text ?res) = Some (''hello'' @ [CHR 0x0A] @ ''world'') \<and>
      ''hello'' @ [CHR 0x0A] @ ''world'' \<noteq> []"
    by (simp add: change_kind_def lower_tool_names diff_of_def orElse_def text_of_def
          find_text_def)
  have path: "arg_filePath (Some (cached_args (toolArgsCache ?st0) ''t1'' None)) = ''/f.txt''"
    unfolding cache by (simp add: cached_args_def arg_filePath_def arg_def orElse_def orStr_def)
  have n: "show_nat (Suc (length (filter (\<lambda>x. x = CHR 0x0A) (''hello'' @ [CHR 0x0A] @ ''world'')))) = ''2''"
    by (simp add: show_nat.simps digit_def)
  have ls: "js_join [CHR 0x0A] (map (\<lambda>l. CHR ''+'' # l)
              (js_split (CHR 0x0A) (''hello'' @ [CHR 0x0A] @ ''world''))) =
            ''+hello'' @ [CHR 0x0A] @ ''+world''"
    by simp
  from diff_fragment_appended [OF fc, where toolCallId = "''t1''" and result = ?res
      and isError = False and eventArgs = None and st = ?st0] hyps
  have "accumulatedDiff
     (translatePiEventToCodex (ToolExecutionEnd ''write'' ''t1'' ?res False None) ?st0) =
     accumulatedDiff ?st0 @
       [''--- /dev/null'' @ [CHR 0x0A] @ ''+++ b/'' @
        arg_filePath (Some (cached_args (toolArgsCache ?st0) ''t1'' None)) @ [CHR 0x0A] @
        ''@@ -0,0 +1,'' @
        show_nat (Suc (length (filter (\<lambda>x. x = CHR 0x0A) (''hello'' @ [CHR 0x0A] @ ''world'')))) @
        '' @@'' @ [CHR 0x0A] @
        js_join [CHR 0x0A] (map (\<lambda>l. CHR ''+'' # l)
          (js_split (CHR 0x0A) (''hello'' @ [CHR 0x0A] @ ''world'')))]"
    by blast
  then have create: "accumulatedDiff
     (translatePiEventToCodex (ToolExecutionEnd ''write'' ''t1'' ?res False None) ?st0) =
     [''--- /dev/null'' @ [CHR 0x0A] @ ''+++ b//f.txt'' @ [CHR 0x0A] @ ''@@ -0,0 +1,2 @@'' @
      [CHR 0x0A] @ ''+hello'' @ [CHR 0x0A] @ ''+world'']"
    unfolding path n ls acc by simp
  let ?res2 = "Some (ToolResult None (Some ''@@ -1 +1 @@''))"
  let ?args2 = "Some [(''path'', ''/f.txt'')]"
  have fc2: "isFileChange ''edit''"
    by (simp add: isFileChange_def)
  have init: "toolArgsCache (initial ''/w'' ''t0'') = []"
    "accumulatedDiff (initial ''/w'' ''t0'') = []"
    by (simp_all add: initial_def sendCodexNotification_def)
  have path2: "arg_filePath (Some (cached_args [] ''t2'' ?args2)) = ''/f.txt''"
    by (simp add: cached_args_def arg_filePath_def arg_def orElse_def orStr_def)
  have body: "diff_of ?res2 = Some ''@@ -1 +1 @@'' \<and> ''@@ -1 +1 @@'' \<noteq> []"
    by (simp add: diff_of_def)
  from diff_fragment_appended [OF fc2, where toolCallId = "''t2''" and result = ?res2
      and isError = False and eventArgs = ?args2 and st = "initial ''/w'' ''t0''"] body
  have "accumulatedDiff
     (translatePiEventToCodex (ToolExecutionEnd ''edit'' ''t2'' ?res2 False ?args2)
        (initial ''/w'' ''t0'')) =
     accumulatedDiff (initial ''/w'' ''t0'') @
       [''--- a/'' @ arg_filePath (Some (cached_args (toolArgsCache (initial ''/w'' ''t0''))
                                          ''t2'' ?args2)) @ [CHR 0x0A] @
        ''+++ b/'' @ arg_filePath (Some (cached_args (toolArgsCache (initial ''/w'' ''t0''))
                                          ''t2'' ?args2)) @ [CHR 0x0A] @ ''@@ -1 +1 @@'']"
    by blast
  then have edit: "accumulatedDiff
     (translatePiEventToCodex (ToolExecutionEnd ''edit'' ''t2'' ?res2 False ?args2)
        (initial ''/w'' ''t0'')) =
     [''--- a//f.txt'' @ [CHR 0x0A] @ ''+++ b//f.txt'' @ [CHR 0x0A] @ ''@@ -1 +1 @@'']"
    unfolding init path2 by simp
  from fc create fc2 edit show ?thesis
    by blast
qed

subsection \<open>Runs and the two start-up scenarios\<close>

lemma run_Cons: "run (i # ins) st = run ins (step i st)"
  by (simp add: run_def)

lemma run_Nil: "run [] st = st"
  by (simp add: run_def)

lemma run_append: "run (xs @ ys) st = run ys (run xs st)"
  by (simp add: run_def)

lemma uuid_0: "uuid_str 0 = ''uuid-0''"
  by (simp add: uuid_str_def show_nat.simps digit_def)

lemma uuid_1: "uuid_str (Suc 0) = ''uuid-1''"
  by (simp add: uuid_str_def show_nat.simps digit_def)

lemma cold_start_state:
  assumes "method \<noteq> []"
  shows "cold_start method ps =
     (initial ''/w'' ''t0'')
       \<lparr>piProcess := Some 0, piReader := Some 0,
        pendingRequests :=
          [(''uuid-0'', AfterInitialModel (CodexRequest (Some (JNum 1)) method ps))],
        piStdin := [(''uuid-0'', PiCommand ''set_model''
                      [(''provider'', ''anthropic''), (''modelId'', ''claude-sonnet-4-20250514'')])],
        ioWaits := [], ioCount := 2, uuidCount := 1, spawnCount := 1\<rparr>"
  using assms
  by (simp add: cold_start_def cold_inputs_def run_Cons run_Nil initial_def
      sendCodexNotification_def main_line_def orElse_def handleCodexRequest_def ensurePiProcess_def await_io_def
      map_delete_def spawn_pi_def sendPiCommand_def uuidv4_def uuid_0)

lemma warm_start_running:
  "piProcess (warm_start ''thread/list'' no_params) = Some 0"
  "currentModel (warm_start ''thread/list'' no_params) = ''claude-sonnet-4-20250514''"
  "modelProviderMap (warm_start ''thread/list'' no_params) = []"
  "map snd (piStdin (warm_start ''thread/list'' no_params)) =
     [PiCommand ''set_model''
        [(''provider'', ''anthropic''), (''modelId'', ''claude-sonnet-4-20250514'')]]"
  by (simp_all add: warm_start_def acknowledge_def cold_start_state handlePiMessage_def
        orElse_def map_delete_def dispatch_def handle_thread_list_def sendCodexResponse_def
        initial_def sendCodexNotification_def)

subsection \<open>Initialize\<close>

text \<open>
  Claim C2, as the code has it. While a child process is running, an \<^verbatim>\<open>initialize\<close>
  request writes one response, with \<^verbatim>\<open>protocolVersion\<close> \<^verbatim>\<open>"2.0"\<close> and the capability flags
  \<^verbatim>\<open>threads\<close>, \<^verbatim>\<open>turns\<close>, \<^verbatim>\<open>models\<close> all true, and changes nothing else: every other
  component of the state is the same and no command is sent to the agent.
\<close>

theorem initialize_when_running:
  assumes "piProcess st \<noteq> None"
  shows "step (StdinLine (JsonLine rid (Some ''initialize'') ps)) st =
    st\<lparr>stdout := stdout st @
      [obj [(''jsonrpc'', Some (JStr ''2.0'')), (''id'', rid),
            (''result'', Some (obj [(''protocolVersion'', Some (JStr ''2.0'')),
               (''capabilities'', Some (obj [(''threads'', Some (JBool True)),
                                             (''turns'', Some (JBool True)),
                                             (''models'', Some (JBool True))]))]))]]\<rparr>"
  using assms
  by (auto simp: main_line_def orElse_def handleCodexRequest_def ensurePiProcess_def dispatch_def
      handle_initialize_def sendCodexResponse_def)

theorem initialize_when_running_witness:
  "piProcess (warm_start ''thread/list'' no_params) \<noteq> None \<and>
   step (StdinLine (JsonLine (Some (JNum 2)) (Some ''initialize'') no_params))
     (warm_start ''thread/list'' no_params) =
   (warm_start ''thread/list'' no_params)
     \<lparr>stdout := stdout (warm_start ''thread/list'' no_params) @
        [JObj [(''jsonrpc'', JStr ''2.0''), (''id'', JNum 2),
               (''result'', JObj [(''protocolVersion'', JStr ''2.0''),
                  (''capabilities'', JObj [(''threads'', JBool True), (''turns'', JBool True),
                                           (''models'', JBool True)])])]]\<rparr>"
proof -
  have a: "piProcess (warm_start ''thread/list'' no_params) \<noteq> None"
    by (simp add: warm_start_running)
  from initialize_when_running [OF a, of "Some (JNum 2)" no_params] a show ?thesis
    by (simp add: obj_def)
qed

text \<open>The claim as stated fails when \<^verbatim>\<open>initialize\<close> is the first request: no child is
  running, so the handler spawns one and sends \<^verbatim>\<open>set_model\<close>; the handle, the pending map
  and the agent's stdin have changed, and the request has no response yet.\<close>

theorem initialize_cold_start:
  "piProcess (initial ''/w'' ''t0'') = None \<and>
   piProcess (cold_start ''initialize'' no_params) = Some 0 \<and>
   pendingRequests (initial ''/w'' ''t0'') = [] \<and>
   pendingRequests (cold_start ''initialize'' no_params) =
     [(''uuid-0'', AfterInitialModel (CodexRequest (Some (JNum 1)) ''initialize'' no_params))] \<and>
   piStdin (initial ''/w'' ''t0'') = [] \<and>
   piStdin (cold_start ''initialize'' no_params) =
     [(''uuid-0'', PiCommand ''set_model''
         [(''provider'', ''anthropic''), (''modelId'', ''claude-sonnet-4-20250514'')])] \<and>
   answered (JNum 1) (cold_start ''initialize'' no_params) = 0"
  by (simp add: cold_start_state initial_def sendCodexNotification_def answered_def obj_def)

subsection \<open>Turn start without text\<close>

lemma js_join_empty_iff:
  assumes "sep \<noteq> []"
  shows "js_join sep xs = [] \<longleftrightarrow> xs = [] \<or> xs = [] # []"
proof (cases xs)
  case Nil
  then show ?thesis by simp
next
  case (Cons x ys)
  then show ?thesis
    using assms by (cases ys) auto
qed

lemma input_text_joins: "input_text ps = js_join [CHR 0x0A] (block_texts ps)"
proof -
  have "block_text = (\<lambda>i. case ib_text i of None \<Rightarrow> [] | Some x \<Rightarrow> x)"
    by (rule ext) (simp add: block_text_def)
  then show ?thesis
    by (simp add: input_text_def block_texts_def split: option.splits)
qed

lemma input_text_empty_iff:
  "input_text ps = [] \<longleftrightarrow> block_texts ps = [] \<or> block_texts ps = [] # []"
  by (simp add: input_text_joins js_join_empty_iff)

text \<open>
  Claim C7, as the code has it. While a child process is running, a \<^verbatim>\<open>turn/start\<close> request
  whose text is the empty string writes exactly one line, an error response with the
  message \<^verbatim>\<open>No text input provided\<close> (under the code -32000 that the handler uses for all
  its failures), and causes no traffic to the agent: nothing is written to its stdin and
  no command or other operation is left pending. The text of a request is what the handler
  tests: the texts of its input blocks of type \<^verbatim>\<open>text\<close> joined with newlines, which is empty
  when there is no such block, or one only and its text is empty or missing
  (\<open>input_text_empty_iff\<close>).
\<close>

theorem turn_start_empty_when_running:
  assumes "piProcess st \<noteq> None" and "input_text ps = []"
  shows "stdout (step (StdinLine (JsonLine rid (Some ''turn/start'') ps)) st) =
           stdout st @
             [obj [(''jsonrpc'', Some (JStr ''2.0'')), (''id'', rid),
                   (''error'', Some (obj [(''code'', Some (JNum (- 32000))),
                      (''message'', Some (JStr ''No text input provided''))]))]] \<and>
         piStdin (step (StdinLine (JsonLine rid (Some ''turn/start'') ps)) st) = piStdin st \<and>
         pendingRequests (step (StdinLine (JsonLine rid (Some ''turn/start'') ps)) st) =
           pendingRequests st \<and>
         ioWaits (step (StdinLine (JsonLine rid (Some ''turn/start'') ps)) st) = ioWaits st"
  using assms
  by (auto simp: main_line_def orElse_def handleCodexRequest_def ensurePiProcess_def dispatch_def
      handle_turn_start_def sendCodexResponse_def uuidv4_def Let_def case_prod_beta
      split: option.splits)

theorem turn_start_empty_when_running_witness:
  "piProcess (warm_start ''thread/list'' no_params) \<noteq> None \<and> input_text empty_turn = [] \<and>
   stdout (step (StdinLine (JsonLine (Some (JNum 2)) (Some ''turn/start'') empty_turn))
             (warm_start ''thread/list'' no_params)) =
     stdout (warm_start ''thread/list'' no_params) @
       [obj [(''jsonrpc'', Some (JStr ''2.0'')), (''id'', Some (JNum 2)),
             (''error'', Some (obj [(''code'', Some (JNum (- 32000))),
                (''message'', Some (JStr ''No text input provided''))]))]] \<and>
   piStdin (step (StdinLine (JsonLine (Some (JNum 2)) (Some ''turn/start'') empty_turn))
              (warm_start ''thread/list'' no_params)) =
     piStdin (warm_start ''thread/list'' no_params)"
proof -
  have a: "piProcess (warm_start ''thread/list'' no_params) \<noteq> None"
    by (simp add: warm_start_running)
  have b: "input_text empty_turn = []"
    by (simp add: input_text_def empty_turn_def)
  from turn_start_empty_when_running [OF a b, of "Some (JNum 2)"] a b show ?thesis
    by blast
qed

text \<open>The claim as stated fails in two ways. When the request arrives while no child is
  running, the handler first spawns one and writes \<^verbatim>\<open>set_model\<close> to it, and the request has
  no response until the agent answers. And with a child running, a request with two text
  blocks, both empty, has texts that concatenate to the empty string, yet the text that
  the handler tests is a newline: the request is answered with a turn in progress and a
  \<^verbatim>\<open>prompt\<close> is written to the agent.\<close>

theorem turn_start_empty_cold_start:
  "input_text empty_turn = [] \<and>
   piStdin (initial ''/w'' ''t0'') = [] \<and>
   piStdin (cold_start ''turn/start'' empty_turn) =
     [(''uuid-0'', PiCommand ''set_model''
         [(''provider'', ''anthropic''), (''modelId'', ''claude-sonnet-4-20250514'')])] \<and>
   answered (JNum 1) (cold_start ''turn/start'' empty_turn) = 0 \<and>
   concat (block_texts two_empty_texts) = [] \<and>
   input_text two_empty_texts = [CHR 0x0A] \<and>
   piProcess (warm_start ''thread/list'' no_params) = Some 0 \<and>
   map snd (piStdin (step (StdinLine (JsonLine (Some (JNum 2)) (Some ''turn/start'')
                                        two_empty_texts))
                       (warm_start ''thread/list'' no_params))) =
     [PiCommand ''set_model''
        [(''provider'', ''anthropic''), (''modelId'', ''claude-sonnet-4-20250514'')],
      PiCommand ''prompt'' [(''message'', [CHR 0x0A])]] \<and>
   last (stdout (step (StdinLine (JsonLine (Some (JNum 2)) (Some ''turn/start'')
                                    two_empty_texts))
                   (warm_start ''thread/list'' no_params))) =
     JObj [(''jsonrpc'', JStr ''2.0''), (''id'', JNum 2),
           (''result'', JObj [(''turn'', JObj [(''id'', JStr ''uuid-1''), (''items'', JArr []),
                                               (''status'', JStr ''inProgress'')])])]"
proof -
  have cold: "input_text empty_turn = [] \<and>
     piStdin (initial ''/w'' ''t0'') = [] \<and>
     piStdin (cold_start ''turn/start'' empty_turn) =
       [(''uuid-0'', PiCommand ''set_model''
           [(''provider'', ''anthropic''), (''modelId'', ''claude-sonnet-4-20250514'')])] \<and>
     answered (JNum 1) (cold_start ''turn/start'' empty_turn) = 0"
    by (simp add: cold_start_state initial_def sendCodexNotification_def answered_def obj_def
         input_text_def empty_turn_def)
  have texts: "concat (block_texts two_empty_texts) = []"
    "input_text two_empty_texts = [CHR 0x0A]"
    by (simp_all add: block_texts_def block_text_def input_text_def two_empty_texts_def)
  have running: "piProcess (warm_start ''thread/list'' no_params) = Some 0"
    by (simp add: warm_start_running)
  have ps: "p_threadId two_empty_texts = Some ''th1''" "p_model two_empty_texts = None"
    by (simp_all add: two_empty_texts_def)
  have count: "uuidCount (warm_start ''thread/list'' no_params) = Suc 0"
    by (simp add: warm_start_def acknowledge_def cold_start_state handlePiMessage_def
          orElse_def map_delete_def dispatch_def handle_thread_list_def sendCodexResponse_def
          initial_def sendCodexNotification_def)
  have sent: "map snd (piStdin (step (StdinLine (JsonLine (Some (JNum 2)) (Some ''turn/start'')
                                          two_empty_texts))
                         (warm_start ''thread/list'' no_params))) =
     [PiCommand ''set_model''
        [(''provider'', ''anthropic''), (''modelId'', ''claude-sonnet-4-20250514'')],
      PiCommand ''prompt'' [(''message'', [CHR 0x0A])]]"
    using running
    by (simp add: texts(2) ps warm_start_running(4) main_line_def orElse_def
          handleCodexRequest_def
          ensurePiProcess_def dispatch_def handle_turn_start_def turn_response_def
          sendPiCommand_def sendCodexResponse_def uuidv4_def Let_def case_prod_beta)
  have answer: "last (stdout (step (StdinLine (JsonLine (Some (JNum 2)) (Some ''turn/start'')
                                      two_empty_texts))
                     (warm_start ''thread/list'' no_params))) =
     JObj [(''jsonrpc'', JStr ''2.0''), (''id'', JNum 2),
           (''result'', JObj [(''turn'', JObj [(''id'', JStr ''uuid-1''), (''items'', JArr []),
                                               (''status'', JStr ''inProgress'')])])]"
    using running
    by (simp add: texts(2) ps count uuid_1 main_line_def orElse_def handleCodexRequest_def
          ensurePiProcess_def dispatch_def handle_turn_start_def turn_response_def
          sendPiCommand_def sendCodexResponse_def uuidv4_def Let_def case_prod_beta
          str_or_null_def obj_def)
  from cold texts running sent answer show ?thesis
    by blast
qed

subsection \<open>The model registry\<close>

lemma js_includes_char: "js_includes s [c] \<longleftrightarrow> c \<in> set s"
  by (induction s) auto

lemma js_split_first: "c \<notin> set p \<Longrightarrow> js_split c (p @ c # rest) = p # js_split c rest"
  by (induction p) auto

lemma map_of_map_set: "map_of (map_set k v xs) = (map_of xs)(k \<mapsto> v)"
  by (induction xs) auto

lemma composite_provider_unique:
  assumes "p1 @ CHR ''/'' # i1 = p2 @ CHR ''/'' # i2"
    and "CHR ''/'' \<notin> set p1" and "CHR ''/'' \<notin> set p2"
  shows "p1 = p2"
proof -
  have "js_split (CHR ''/'') (p1 @ CHR ''/'' # i1) = js_split (CHR ''/'') (p2 @ CHR ''/'' # i2)"
    using assms(1) by simp
  then show ?thesis
    using assms(2,3) by (simp add: js_split_first)
qed

lemma register_models_snoc:
  "register_models (ms @ [m]) reg =
     map_set (compositeId m) (me_provider m) (register_models ms reg)"
  by (simp add: register_models_def)

lemma register_models_lookup:
  assumes "\<forall>e \<in> set models. CHR ''/'' \<notin> set (me_provider e)" and "m \<in> set models"
  shows "map_of (register_models models reg) (compositeId m) = Some (me_provider m)"
  using assms
proof (induction models rule: rev_induct)
  case Nil
  then show ?case by simp
next
  case (snoc x xs)
  show ?case
  proof (cases "compositeId x = compositeId m")
    case True
    then have "me_provider x = me_provider m"
      using snoc.prems
        composite_provider_unique [of "me_provider x" "me_id x" "me_provider m" "me_id m"]
      by (auto simp: compositeId_def)
    with True show ?thesis
      by (simp add: register_models_snoc map_of_map_set)
  next
    case False
    then have "m \<in> set xs"
      using snoc.prems(2) by auto
    with snoc False show ?thesis
      by (simp add: register_models_snoc map_of_map_set)
  qed
qed

lemma parse_composite:
  assumes "CHR ''/'' \<notin> set p"
  shows "parse_model reg (p @ CHR ''/'' # i) = (p, i)"
  using assms
  by (simp add: parse_model_def js_includes_char js_split_first js_join_split)

text \<open>
  Claim C8, as the code has it. After a successful \<^verbatim>\<open>model/list\<close> whose entries all have a
  provider name free of the separator \<^verbatim>\<open>/\<close>, every entry is advertised under the
  composite identifier provider\<^verbatim>\<open>/\<close>id, splitting that identifier the way \<^verbatim>\<open>turn/start\<close>
  does gives back the entry's provider and inner id (also when the inner id contains
  \<^verbatim>\<open>/\<close>), and the registry maps the identifier to that provider.
\<close>

theorem composite_round_trip:
  fixes models :: "model_entry list" and st :: bridge and rid :: "json option"
  assumes "\<forall>e \<in> set models. CHR ''/'' \<notin> set (me_provider e)" and "m \<in> set models"
  defines "st' \<equiv> on_resolve (ModelListAfterModels rid) (Models models) st"
  shows "field ''id'' (model_json (currentModel st) m) = Some (JStr (compositeId m)) \<and>
         parse_model (modelProviderMap st') (compositeId m) = (me_provider m, me_id m) \<and>
         map_of (modelProviderMap st') (compositeId m) = Some (me_provider m)"
  using assms(1,2) register_models_lookup [OF assms(1,2)] unfolding st'_def
  by (simp add: model_list_response_def sendCodexResponse_def Let_def model_json_def obj_def
        parse_composite compositeId_def)

theorem composite_round_trip_witness:
  "parse_model
     (modelProviderMap (on_resolve (ModelListAfterModels (Some (JNum 3)))
        (Models [ModelEntry ''openrouter'' ''meta/llama-3'' None False,
                 ModelEntry ''openai'' ''gpt-5'' None True])
        (initial ''/w'' ''t0'')))
     ''openrouter/meta/llama-3'' = (''openrouter'', ''meta/llama-3'') \<and>
   map_of
     (modelProviderMap (on_resolve (ModelListAfterModels (Some (JNum 3)))
        (Models [ModelEntry ''openrouter'' ''meta/llama-3'' None False,
                 ModelEntry ''openai'' ''gpt-5'' None True])
        (initial ''/w'' ''t0'')))
     ''openrouter/meta/llama-3'' = Some ''openrouter''"
proof -
  let ?ms = "[ModelEntry ''openrouter'' ''meta/llama-3'' None False,
              ModelEntry ''openai'' ''gpt-5'' None True]"
  have a: "\<forall>e \<in> set ?ms. CHR ''/'' \<notin> set (me_provider e)"
    by simp
  have b: "ModelEntry ''openrouter'' ''meta/llama-3'' None False \<in> set ?ms"
    by simp
  have c: "compositeId (ModelEntry ''openrouter'' ''meta/llama-3'' None False) =
           ''openrouter/meta/llama-3''"
    by (simp add: compositeId_def)
  from composite_round_trip [OF a b, where rid = "Some (JNum 3)" and st = "initial ''/w'' ''t0''"]
  show ?thesis
    unfolding c by simp
qed

text \<open>The claim as stated fails for an entry whose provider name contains the separator:
  the provider \<^verbatim>\<open>a/b\<close> with the inner id \<^verbatim>\<open>c\<close> is advertised as \<^verbatim>\<open>a/b/c\<close>, which splits into
  the provider \<^verbatim>\<open>a\<close> and the inner id \<^verbatim>\<open>b/c\<close>.\<close>

theorem composite_round_trip_slash_provider:
  "compositeId (ModelEntry ''a/b'' ''c'' None False) = ''a/b/c'' \<and>
   parse_model [] (compositeId (ModelEntry ''a/b'' ''c'' None False)) = (''a'', ''b/c'')"
  by (simp add: compositeId_def parse_model_def)

lemma guess_table:
  "prefix ''claude'' model \<Longrightarrow> guess_provider model = ''anthropic''"
  "prefix ''gpt'' model \<or> prefix ''o1'' model \<or> prefix ''o3'' model \<Longrightarrow>
     guess_provider model = ''openai''"
  "prefix ''gemini'' model \<Longrightarrow> guess_provider model = ''google''"
  "prefix ''mistral'' model \<or> prefix ''codestral'' model \<or> prefix ''devstral'' model \<Longrightarrow>
     guess_provider model = ''mistral''"
  "prefix ''grok'' model \<Longrightarrow> guess_provider model = ''opencode''"
  by (auto simp: guess_provider_def prefix_def)

text \<open>
  Claim C4, as the code has it. For a model identifier without \<^verbatim>\<open>/\<close> supplied at
  \<^verbatim>\<open>turn/start\<close> (non-empty, different from the current model, with a non-empty prompt and
  a running child), the registry is consulted first; when it has no (non-empty) provider
  for the identifier, the provider is guessed from the name: prefix \<^verbatim>\<open>claude\<close> gives
  anthropic, \<^verbatim>\<open>gpt\<close>/\<^verbatim>\<open>o1\<close>/\<^verbatim>\<open>o3\<close> openai, \<^verbatim>\<open>gemini\<close> google,
  \<^verbatim>\<open>mistral\<close>/\<^verbatim>\<open>codestral\<close>/\<^verbatim>\<open>devstral\<close> mistral, \<^verbatim>\<open>grok\<close> opencode; otherwise a name
  containing \<^verbatim>\<open>pickle\<close>, \<^verbatim>\<open>glm\<close> or \<^verbatim>\<open>minimax\<close> gives opencode, and anything else anthropic.
  The provider becomes the current provider and is sent in \<^verbatim>\<open>set_model\<close> with the
  identifier as the model id. The registry is not changed: the guess is not recorded
  there.
\<close>

theorem legacy_model_provider:
  fixes st :: bridge and ps :: params and rid :: "json option" and model :: string
  assumes "piProcess st \<noteq> None" and "input_text ps \<noteq> []"
    and "p_model ps = Some model" and "model \<noteq> []" and "model \<noteq> currentModel st"
    and "\<not> js_includes model ''/''"
  defines "st' \<equiv> step (StdinLine (JsonLine rid (Some ''turn/start'') ps)) st"
    and "provider \<equiv>
      (case map_of (modelProviderMap st) model of
         None \<Rightarrow> guess_provider model
       | Some p \<Rightarrow> if p = [] then guess_provider model else p)"
  shows "currentProvider st' = provider \<and> currentModel st' = model \<and>
         map snd (piStdin st') = map snd (piStdin st) @
           [PiCommand ''set_model'' [(''provider'', provider), (''modelId'', model)]] \<and>
         modelProviderMap st' = modelProviderMap st \<and>
         (prefix ''claude'' model \<longrightarrow> guess_provider model = ''anthropic'') \<and>
         (prefix ''gpt'' model \<or> prefix ''o1'' model \<or> prefix ''o3'' model \<longrightarrow>
            guess_provider model = ''openai'') \<and>
         (prefix ''gemini'' model \<longrightarrow> guess_provider model = ''google'') \<and>
         (prefix ''mistral'' model \<or> prefix ''codestral'' model \<or> prefix ''devstral'' model \<longrightarrow>
            guess_provider model = ''mistral'') \<and>
         (prefix ''grok'' model \<longrightarrow> guess_provider model = ''opencode'') \<and>
         (\<not> prefix ''claude'' model \<and> \<not> prefix ''gpt'' model \<and> \<not> prefix ''o1'' model \<and>
          \<not> prefix ''o3'' model \<and> \<not> prefix ''gemini'' model \<and> \<not> prefix ''mistral'' model \<and>
          \<not> prefix ''codestral'' model \<and> \<not> prefix ''devstral'' model \<and>
          \<not> prefix ''grok'' model \<longrightarrow>
            guess_provider model =
              (if js_includes model ''pickle'' \<or> js_includes model ''glm'' \<or>
                  js_includes model ''minimax'' then ''opencode'' else ''anthropic''))"
proof -
  have state: "currentProvider st' = provider \<and> currentModel st' = model \<and>
         map snd (piStdin st') = map snd (piStdin st) @
           [PiCommand ''set_model'' [(''provider'', provider), (''modelId'', model)]] \<and>
         modelProviderMap st' = modelProviderMap st"
    using assms(1-6) unfolding st'_def provider_def
    by (auto simp: main_line_def orElse_def handleCodexRequest_def ensurePiProcess_def dispatch_def
        handle_turn_start_def sendPiCommand_def uuidv4_def Let_def case_prod_beta parse_model_def
        orStr_def split: option.splits)
  show ?thesis
    using state guess_table [of model] by (simp add: guess_provider_def)
qed

theorem legacy_model_provider_witness:
  "currentProvider (step (StdinLine (JsonLine (Some (JNum 2)) (Some ''turn/start'') gpt_turn))
                      (warm_start ''thread/list'' no_params)) = ''openai'' \<and>
   modelProviderMap (step (StdinLine (JsonLine (Some (JNum 2)) (Some ''turn/start'') gpt_turn))
                       (warm_start ''thread/list'' no_params)) = []"
proof -
  have a: "piProcess (warm_start ''thread/list'' no_params) \<noteq> None"
    and e: "''gpt-4'' \<noteq> currentModel (warm_start ''thread/list'' no_params)"
    by (simp_all add: warm_start_running)
  have b: "input_text gpt_turn \<noteq> []" and c: "p_model gpt_turn = Some ''gpt-4''"
    and d: "''gpt-4'' \<noteq> []" and f: "\<not> js_includes ''gpt-4'' ''/''"
    by (simp_all add: gpt_turn_def input_text_def)
  have g: "prefix ''gpt'' ''gpt-4''"
    by simp
  from legacy_model_provider [OF a b c d e f, of "Some (JNum 2)"] g show ?thesis
    by (simp add: warm_start_running)
qed

text \<open>The claim as stated fails where it says the guess is recorded: after a
  \<^verbatim>\<open>turn/start\<close> that selects \<^verbatim>\<open>gpt-4\<close>, whose provider is guessed as openai, the registry
  still has no entry for \<^verbatim>\<open>gpt-4\<close>. It also fails for a \<^verbatim>\<open>turn/start\<close> that selects \<^verbatim>\<open>gpt-4\<close>
  and has no text: the handler answers with an error before it looks at the model, so the
  provider stays anthropic and no \<^verbatim>\<open>set_model\<close> is written for the request.\<close>

theorem legacy_model_not_recorded:
  "map_of (modelProviderMap (warm_start ''thread/list'' no_params)) ''gpt-4'' = None \<and>
   currentProvider (step (StdinLine (JsonLine (Some (JNum 2)) (Some ''turn/start'') gpt_turn))
                      (warm_start ''thread/list'' no_params)) = ''openai'' \<and>
   map_of (modelProviderMap
             (step (StdinLine (JsonLine (Some (JNum 2)) (Some ''turn/start'') gpt_turn))
                (warm_start ''thread/list'' no_params))) ''gpt-4'' = None \<and>
   p_model gpt_no_text = Some ''gpt-4'' \<and> input_text gpt_no_text = [] \<and>
   currentProvider (step (StdinLine (JsonLine (Some (JNum 2)) (Some ''turn/start'') gpt_no_text))
                      (warm_start ''thread/list'' no_params)) = ''anthropic'' \<and>
   currentModel (step (StdinLine (JsonLine (Some (JNum 2)) (Some ''turn/start'') gpt_no_text))
                   (warm_start ''thread/list'' no_params)) = ''claude-sonnet-4-20250514'' \<and>
   piStdin (step (StdinLine (JsonLine (Some (JNum 2)) (Some ''turn/start'') gpt_no_text))
              (warm_start ''thread/list'' no_params)) =
     piStdin (warm_start ''thread/list'' no_params)"
proof -
  have a: "piProcess (warm_start ''thread/list'' no_params) \<noteq> None"
    by (simp add: warm_start_running)
  have recorded:
    "map_of (modelProviderMap (warm_start ''thread/list'' no_params)) ''gpt-4'' = None \<and>
     currentProvider (step (StdinLine (JsonLine (Some (JNum 2)) (Some ''turn/start'') gpt_turn))
                        (warm_start ''thread/list'' no_params)) = ''openai'' \<and>
     map_of (modelProviderMap
               (step (StdinLine (JsonLine (Some (JNum 2)) (Some ''turn/start'') gpt_turn))
                  (warm_start ''thread/list'' no_params))) ''gpt-4'' = None"
    using a
    by (auto simp: warm_start_running main_line_def orElse_def handleCodexRequest_def ensurePiProcess_def
        dispatch_def handle_turn_start_def sendPiCommand_def uuidv4_def Let_def case_prod_beta
        parse_model_def orStr_def gpt_turn_def input_text_def guess_provider_def
        split: option.splits)
  have b: "p_model gpt_no_text = Some ''gpt-4''" "input_text gpt_no_text = []"
    by (simp_all add: gpt_no_text_def input_text_def)
  have provider: "currentProvider (warm_start ''thread/list'' no_params) = ''anthropic''"
    by (simp add: warm_start_def acknowledge_def cold_start_state handlePiMessage_def
          orElse_def map_delete_def dispatch_def handle_thread_list_def sendCodexResponse_def
          initial_def sendCodexNotification_def)
  have no_text:
    "currentProvider (step (StdinLine (JsonLine (Some (JNum 2)) (Some ''turn/start'') gpt_no_text))
                        (warm_start ''thread/list'' no_params)) = ''anthropic'' \<and>
     currentModel (step (StdinLine (JsonLine (Some (JNum 2)) (Some ''turn/start'') gpt_no_text))
                     (warm_start ''thread/list'' no_params)) = ''claude-sonnet-4-20250514'' \<and>
     piStdin (step (StdinLine (JsonLine (Some (JNum 2)) (Some ''turn/start'') gpt_no_text))
                (warm_start ''thread/list'' no_params)) =
       piStdin (warm_start ''thread/list'' no_params)"
    using a
    by (auto simp: b(2) provider warm_start_running(2) main_line_def orElse_def
        handleCodexRequest_def ensurePiProcess_def dispatch_def handle_turn_start_def
        sendCodexResponse_def uuidv4_def Let_def case_prod_beta split: option.splits)
  from recorded b no_text show ?thesis
    by blast
qed

subsection \<open>What the request side leaves alone\<close>

lemma ts_update [simp]:
  "translator_state (st\<lparr>piProcess := a1\<rparr>) = translator_state st"
  "translator_state (st\<lparr>piReader := a2\<rparr>) = translator_state st"
  "translator_state (st\<lparr>currentThreadId := a3\<rparr>) = translator_state st"
  "translator_state (st\<lparr>currentTurnId := a4\<rparr>) = translator_state st"
  "translator_state (st\<lparr>isProcessing := a5\<rparr>) = translator_state st"
  "translator_state (st\<lparr>pendingRequests := a6\<rparr>) = translator_state st"
  "translator_state (st\<lparr>currentModel := a7\<rparr>) = translator_state st"
  "translator_state (st\<lparr>currentProvider := a8\<rparr>) = translator_state st"
  "translator_state (st\<lparr>cwd := a9\<rparr>) = translator_state st"
  "translator_state (st\<lparr>modelProviderMap := b1\<rparr>) = translator_state st"
  "translator_state (st\<lparr>stdout := b2\<rparr>) = translator_state st"
  "translator_state (st\<lparr>piStdin := b3\<rparr>) = translator_state st"
  "translator_state (st\<lparr>ioWaits := b4\<rparr>) = translator_state st"
  "translator_state (st\<lparr>ioCount := b5\<rparr>) = translator_state st"
  "translator_state (st\<lparr>uuidCount := b6\<rparr>) = translator_state st"
  "translator_state (st\<lparr>spawnCount := b7\<rparr>) = translator_state st"
  "translator_state (st\<lparr>clock := b8\<rparr>) = translator_state st"
  by (simp_all add: translator_state_def)

lemma notifications_update [simp]:
  "notifications (st\<lparr>piProcess := a1\<rparr>) = notifications st"
  "notifications (st\<lparr>piReader := a2\<rparr>) = notifications st"
  "notifications (st\<lparr>currentThreadId := a3\<rparr>) = notifications st"
  "notifications (st\<lparr>currentTurnId := a4\<rparr>) = notifications st"
  "notifications (st\<lparr>currentMessageId := c1\<rparr>) = notifications st"
  "notifications (st\<lparr>isProcessing := a5\<rparr>) = notifications st"
  "notifications (st\<lparr>pendingRequests := a6\<rparr>) = notifications st"
  "notifications (st\<lparr>currentModel := a7\<rparr>) = notifications st"
  "notifications (st\<lparr>currentProvider := a8\<rparr>) = notifications st"
  "notifications (st\<lparr>cwd := a9\<rparr>) = notifications st"
  "notifications (st\<lparr>toolArgsCache := c2\<rparr>) = notifications st"
  "notifications (st\<lparr>accumulatedDiff := c3\<rparr>) = notifications st"
  "notifications (st\<lparr>modelProviderMap := b1\<rparr>) = notifications st"
  "notifications (st\<lparr>piStdin := b3\<rparr>) = notifications st"
  "notifications (st\<lparr>ioWaits := b4\<rparr>) = notifications st"
  "notifications (st\<lparr>ioCount := b5\<rparr>) = notifications st"
  "notifications (st\<lparr>uuidCount := b6\<rparr>) = notifications st"
  "notifications (st\<lparr>spawnCount := b7\<rparr>) = notifications st"
  "notifications (st\<lparr>clock := b8\<rparr>) = notifications st"
  by (simp_all add: notifications_def)

lemma defined_fields_Cons:
  "defined_fields ((k, v) # fs) =
     (case v of None \<Rightarrow> defined_fields fs | Some x \<Rightarrow> (k, x) # defined_fields fs)"
  by (cases v) simp_all

lemma sendCodexResponse_frame [simp]:
  "translator_state (sendCodexResponse rid res err st) = translator_state st"
  "notifications (sendCodexResponse rid res err st) = notifications st"
  by (simp_all add: sendCodexResponse_def notifications_def obj_def defined_fields_Cons
        split: option.splits)

lemma uuidv4_frame [simp]:
  "translator_state (snd (uuidv4 st)) = translator_state st"
  "notifications (snd (uuidv4 st)) = notifications st"
  by (simp_all add: uuidv4_def)

lemma uuidv4_fields [simp]:
  "toolArgsCache (snd (uuidv4 st)) = toolArgsCache st"
  "accumulatedDiff (snd (uuidv4 st)) = accumulatedDiff st"
  "currentMessageId (snd (uuidv4 st)) = currentMessageId st"
  "stdout (snd (uuidv4 st)) = stdout st"
  "fst (uuidv4 st) = uuid_str (uuidCount st)"
  by (simp_all add: uuidv4_def)

lemma await_io_frame [simp]:
  "translator_state (await_io w st) = translator_state st"
  "notifications (await_io w st) = notifications st"
  by (simp_all add: await_io_def)

lemma on_reject_frame [simp]:
  "translator_state (on_reject k m st) = translator_state st"
  "notifications (on_reject k m st) = notifications st"
  by (cases k; simp add: error_response_def)+

lemma sendPiCommand_frame [simp]:
  "translator_state (sendPiCommand c k st) = translator_state st"
  "notifications (sendPiCommand c k st) = notifications st"
  by (simp_all add: sendPiCommand_def case_prod_beta split: option.splits)

lemma turn_response_frame [simp]:
  "translator_state (turn_response rid m st) = translator_state st"
  "notifications (turn_response rid m st) = notifications st"
  by (simp_all add: turn_response_def)

lemma handle_turn_start_frame:
  "translator_state (handle_turn_start rid ps st) = translator_state st"
  "notifications (handle_turn_start rid ps st) = notifications st"
  by (simp_all add: handle_turn_start_def Let_def case_prod_beta split: option.splits)

lemma dispatch_frame [simp]:
  "translator_state (dispatch req st) = translator_state st"
  "notifications (dispatch req st) = notifications st"
  by (simp_all add: dispatch_def Let_def handle_turn_start_frame handle_interrupt_def
      handle_model_list_def handle_initialize_def handle_thread_start_def
      handle_thread_resume_def handle_thread_list_def handle_thread_archive_def
      handle_auth_login_def case_prod_beta split: option.splits)

lemma on_resolve_frame [simp]:
  "translator_state (on_resolve k d st) = translator_state st"
  "notifications (on_resolve k d st) = notifications st"
  by (cases k; simp add: model_list_response_def Let_def)+

lemma io_done_frame [simp]:
  "translator_state (io_done w r st) = translator_state st"
  "notifications (io_done w r st) = notifications st"
  by (cases w; cases r; simp add: spawn_pi_def)+

lemma main_line_frame [simp]:
  "translator_state (main_line l st) = translator_state st"
  "notifications (main_line l st) = notifications st"
  by (simp_all add: main_line_def handleCodexRequest_def ensurePiProcess_def split: stdin_line.splits option.splits)

lemma response_frame [simp]:
  "translator_state (handlePiMessage (Response r) st) = translator_state st"
  "notifications (handlePiMessage (Response r) st) = notifications st"
  by (simp_all add: handlePiMessage_def Let_def split: option.splits)

text \<open>Every input other than an agent event leaves the translator's variables and the
  notifications written so far as they are.\<close>

lemma non_event_cases:
  assumes "\<forall>e. i \<noteq> PiStdout (Some (Event e))"
  obtains (Stdin) l where "i = StdinLine l"
    | (Garbage) "i = PiStdout None"
    | (Answer) r where "i = PiStdout (Some (Response r))"
    | (Exit) "i = PiExit"
    | (Io) n r where "i = IoDone n r"
    | (Clock) t where "i = Tick t"
proof (cases i)
  case (PiStdout m)
  show ?thesis
  proof (cases m)
    case None
    with PiStdout Garbage show ?thesis by simp
  next
    case (Some a)
    with PiStdout assms Answer show ?thesis by (cases a) auto
  qed
qed (use that in auto)

lemma step_frame:
  assumes "\<forall>e. i \<noteq> PiStdout (Some (Event e))"
  shows "translator_state (step i st) = translator_state st"
    and "notifications (step i st) = notifications st"
  using assms by (cases i rule: non_event_cases; simp split: option.splits)+

lemma step_event [simp]: "handlePiMessage (Event e) st = translatePiEventToCodex e st"
  by (simp add: handlePiMessage_def)

subsection \<open>The tool-args cache\<close>

lemma keys_map_set: "fst ` set (map_set k v xs) = insert k (fst ` set xs)"
  by (induction xs) force+

lemma keys_map_delete: "fst ` set (map_delete k xs) = fst ` set xs - {k}"
  by (auto simp: map_delete_def)

lemma cache_keys_event:
  "fst ` set (toolArgsCache (translatePiEventToCodex e st)) =
     (case e of
        ToolExecutionStart n c a \<Rightarrow> insert c (fst ` set (toolArgsCache st))
      | ToolExecutionEnd n c r err a \<Rightarrow> fst ` set (toolArgsCache st) - {c}
      | _ \<Rightarrow> fst ` set (toolArgsCache st))"
  by (cases e)
    (simp_all add: translatePiEventToCodex.simps Let_def case_prod_beta ids_frame
       sendCodexNotification_def error_notification_def keys_map_set keys_map_delete
       split: option.splits)

lemma cache_keys_step:
  "started_not_ended (i # ins) (fst ` set (toolArgsCache st)) =
     started_not_ended ins (fst ` set (toolArgsCache (step i st)))"
proof (cases "\<exists>e. i = PiStdout (Some (Event e))")
  case True
  then obtain e where "i = PiStdout (Some (Event e))" ..
  then show ?thesis
    by (cases e) (simp_all add: cache_keys_event)
next
  case False
  then have ne: "\<forall>e. i \<noteq> PiStdout (Some (Event e))"
    by blast
  then have "translator_state (step i st) = translator_state st"
    by (simp add: step_frame)
  then have same: "toolArgsCache (step i st) = toolArgsCache st"
    by (simp add: translator_state_def)
  from ne show ?thesis
    unfolding same by (cases i rule: non_event_cases) auto
qed

text \<open>
  Claim C9, as the code has it. The tool-args cache holds exactly the tool-call ids that
  have been started and not ended since: \<^verbatim>\<open>tool_execution_start\<close> inserts the id,
  \<^verbatim>\<open>tool_execution_end\<close> removes it, and no other input (\<^verbatim>\<open>agent_end\<close> and errors
  included) touches the cache. So the cache is empty at the end of a turn exactly when
  every started tool has received its \<^verbatim>\<open>tool_execution_end\<close>; the entry of a tool that
  never receives one stays in the cache.
\<close>

theorem cache_holds_started_not_ended:
  "fst ` set (toolArgsCache (run ins st)) = started_not_ended ins (fst ` set (toolArgsCache st))"
proof (induction ins arbitrary: st)
  case Nil
  show ?case by (simp add: run_Nil)
next
  case (Cons i ins)
  show ?case
    unfolding run_Cons Cons.IH cache_keys_step ..
qed

text \<open>The claim as stated fails for a turn that ends with a started tool that never
  receives its end: after \<^verbatim>\<open>agent_start\<close>, \<^verbatim>\<open>tool_execution_start\<close> of \<^verbatim>\<open>t1\<close> and
  \<^verbatim>\<open>agent_end\<close>, the cache still holds the entry of \<^verbatim>\<open>t1\<close>.\<close>

theorem cache_not_empty_at_agent_end:
  "toolArgsCache
     (run [PiStdout (Some (Event AgentStart)),
           PiStdout (Some (Event (ToolExecutionStart ''bash'' ''t1'' (Some [(''command'', ''ls'')])))),
           PiStdout (Some (Event AgentEnd))]
        (initial ''/w'' ''t0'')) =
   [(''t1'', ''bash'', Some [(''command'', ''ls'')])]"
  by (simp add: run_Cons run_Nil translatePiEventToCodex.simps Let_def
        case_prod_beta ids_frame sendCodexNotification_def initial_def)

subsection \<open>The diff accumulator\<close>

lemma js_join_append:
  "xs \<noteq> [] \<Longrightarrow> ys \<noteq> [] \<Longrightarrow> js_join sep (xs @ ys) = js_join sep xs @ sep @ js_join sep ys"
proof (induction sep xs rule: js_join.induct)
  case (2 sep x)
  then show ?case by (cases ys) simp_all
qed simp_all

lemma js_join_prefix: "prefix (js_join sep xs) (js_join sep (xs @ ys))"
proof (cases "xs = [] \<or> ys = []")
  case True
  then show ?thesis by auto
next
  case False
  then show ?thesis by (simp add: js_join_append)
qed

lemma map_filter_append: "List.map_filter f (xs @ ys) = List.map_filter f xs @ List.map_filter f ys"
  by (simp add: map_filter_def)

lemma diff_payloads_notifications:
  "diff_payloads st = List.map_filter diff_payload (notifications st)"
proof -
  have "filter (\<lambda>v. diff_payload v \<noteq> None) (filter (\<lambda>v. field ''method'' v \<noteq> None) xs) =
        filter (\<lambda>v. diff_payload v \<noteq> None) xs" for xs
    by (induction xs) (auto simp: diff_payload_def)
  then show ?thesis
    by (simp add: diff_payloads_def notifications_def map_filter_def)
qed

lemma notifications_sendCodexNotification [simp]:
  "notifications (sendCodexNotification m p st) =
     notifications st @
       [JObj [(''jsonrpc'', JStr ''2.0''), (''method'', JStr m), (''params'', p)]]"
  by (simp add: sendCodexNotification_def notifications_def obj_def)

lemma diff_payload_notification [simp]:
  "diff_payload (JObj [(''jsonrpc'', j), (''method'', JStr m), (''params'', p)]) =
     (if m = ''turn/diff/updated'' then
        (case field ''diff'' p of Some (JStr d) \<Rightarrow> Some d | _ \<Rightarrow> None)
      else None)"
  by (simp add: diff_payload_def)

lemma ids_notifications [simp]: "notifications (snd (snd (ids st))) = notifications st"
  by (simp add: ids_def Let_def case_prod_beta split: option.splits)

lemma accumulatedDiff_sendCodexNotification [simp]:
  "accumulatedDiff (sendCodexNotification m p st) = accumulatedDiff st"
  by (simp add: sendCodexNotification_def)

text \<open>An agent event other than \<^verbatim>\<open>agent_start\<close> only appends to the accumulator, and
  sends at most one \<^verbatim>\<open>turn/diff/updated\<close>, whose payload is the joined accumulator.\<close>

lemma event_diff:
  assumes "e \<noteq> AgentStart"
  shows "\<exists>new fr.
           diff_payloads (translatePiEventToCodex e st) = diff_payloads st @ new \<and>
           accumulatedDiff (translatePiEventToCodex e st) = accumulatedDiff st @ fr \<and>
           (new = [] \<and> fr = [] \<or>
            new = [js_join [CHR 0x0A, CHR 0x0A] (accumulatedDiff (translatePiEventToCodex e st))])"
  using assms
  by (cases e)
    (auto simp: diff_payloads_notifications translatePiEventToCodex.simps Let_def
       case_prod_beta ids_frame error_notification_def map_filter_append
       obj_def split: option.splits)

lemma step_diff:
  assumes "i \<noteq> PiStdout (Some (Event AgentStart))"
  shows "\<exists>new fr.
           diff_payloads (step i st) = diff_payloads st @ new \<and>
           accumulatedDiff (step i st) = accumulatedDiff st @ fr \<and>
           (new = [] \<and> fr = [] \<or>
            new = [js_join [CHR 0x0A, CHR 0x0A] (accumulatedDiff (step i st))])"
proof (cases "\<exists>e. i = PiStdout (Some (Event e))")
  case True
  then obtain e where "i = PiStdout (Some (Event e))" ..
  with assms event_diff [of e st] show ?thesis
    by auto
next
  case False
  then have ne: "\<forall>e. i \<noteq> PiStdout (Some (Event e))"
    by blast
  then have "translator_state (step i st) = translator_state st"
    and "notifications (step i st) = notifications st"
    by (simp_all add: step_frame)
  then show ?thesis
    by (simp add: translator_state_def diff_payloads_notifications)
qed

lemma run_diff:
  assumes "PiStdout (Some (Event AgentStart)) \<notin> set ins"
  shows "\<exists>new.
           diff_payloads (run ins st) = diff_payloads st @ new \<and>
           sorted_wrt prefix new \<and>
           (\<forall>p \<in> set new. prefix (js_join [CHR 0x0A, CHR 0x0A] (accumulatedDiff st)) p) \<and>
           (new = [] \<longrightarrow> accumulatedDiff (run ins st) = accumulatedDiff st) \<and>
           (new \<noteq> [] \<longrightarrow>
              last new = js_join [CHR 0x0A, CHR 0x0A] (accumulatedDiff (run ins st)))"
  using assms
proof (induction ins arbitrary: st)
  case Nil
  then show ?case by (simp add: run_Nil)
next
  case (Cons i ins)
  let ?sep = "[CHR 0x0A, CHR 0x0A]"
  from Cons.prems have i: "i \<noteq> PiStdout (Some (Event AgentStart))"
    and rest: "PiStdout (Some (Event AgentStart)) \<notin> set ins"
    by auto
  from step_diff [OF i, of st] obtain new1 fr where
    d1: "diff_payloads (step i st) = diff_payloads st @ new1"
    and a1: "accumulatedDiff (step i st) = accumulatedDiff st @ fr"
    and n1: "new1 = [] \<and> fr = [] \<or> new1 = [js_join ?sep (accumulatedDiff (step i st))]"
    by blast
  from Cons.IH [OF rest, of "step i st"] obtain new2 where
    d2: "diff_payloads (run ins (step i st)) = diff_payloads (step i st) @ new2"
    and s2: "sorted_wrt prefix new2"
    and p2: "\<forall>p \<in> set new2. prefix (js_join ?sep (accumulatedDiff (step i st))) p"
    and e2: "new2 = [] \<longrightarrow> accumulatedDiff (run ins (step i st)) = accumulatedDiff (step i st)"
    and l2: "new2 \<noteq> [] \<longrightarrow> last new2 = js_join ?sep (accumulatedDiff (run ins (step i st)))"
    by blast
  have mono: "prefix (js_join ?sep (accumulatedDiff st)) (js_join ?sep (accumulatedDiff (step i st)))"
    unfolding a1 by (rule js_join_prefix)
  have "diff_payloads (run (i # ins) st) = diff_payloads st @ (new1 @ new2)"
    by (simp add: run_Cons d1 d2)
  moreover have "sorted_wrt prefix (new1 @ new2)"
    using n1 s2 p2 by (auto simp: sorted_wrt_append)
  moreover have "\<forall>p \<in> set (new1 @ new2). prefix (js_join ?sep (accumulatedDiff st)) p"
    using n1 p2 mono by (auto intro: prefix_order.trans)
  moreover have "new1 @ new2 = [] \<longrightarrow> accumulatedDiff (run (i # ins) st) = accumulatedDiff st"
    using n1 e2 a1 by (auto simp: run_Cons)
  moreover have "new1 @ new2 \<noteq> [] \<longrightarrow>
      last (new1 @ new2) = js_join ?sep (accumulatedDiff (run (i # ins) st))"
    using n1 e2 l2 by (auto simp: run_Cons)
  ultimately show ?case
    by blast
qed

text \<open>
  Claim C6. Within a turn, that is over any sequence of inputs without an \<^verbatim>\<open>agent_start\<close>
  event (which is what empties the accumulator), the \<^verbatim>\<open>turn/diff/updated\<close> payloads
  written are monotonic: every payload is a prefix of every later one, and the latest
  payload is the accumulator's fragments joined with a blank line.
\<close>

theorem diff_updates_monotonic:
  assumes "PiStdout (Some (Event AgentStart)) \<notin> set ins"
  shows "take (length (diff_payloads st)) (diff_payloads (run ins st)) = diff_payloads st \<and>
         sorted_wrt prefix (drop (length (diff_payloads st)) (diff_payloads (run ins st))) \<and>
         (drop (length (diff_payloads st)) (diff_payloads (run ins st)) \<noteq> [] \<longrightarrow>
            last (diff_payloads (run ins st)) =
              js_join [CHR 0x0A, CHR 0x0A] (accumulatedDiff (run ins st)))"
  using run_diff [OF assms, of st] by auto

lemma sendCodexNotification_fields [simp]:
  "toolArgsCache (sendCodexNotification m p st) = toolArgsCache st"
  "uuidCount (sendCodexNotification m p st) = uuidCount st"
  by (simp_all add: sendCodexNotification_def)

text \<open>The effect of \<^verbatim>\<open>tool_execution_end\<close> for a file-change tool on the cache, the
  accumulator and the payloads.\<close>

lemma tool_end_effect:
  fixes st :: bridge and n c :: string and r err a
  assumes "isFileChange n"
  defines "st' \<equiv> translatePiEventToCodex (ToolExecutionEnd n c r err a) st"
  shows "toolArgsCache st' = map_delete c (toolArgsCache st)"
    and "accumulatedDiff st' = accumulatedDiff st @
          (case diff_fragment (arg_filePath (Some (cached_args (toolArgsCache st) c a)))
                  (diff_of r) (orStr (text_of (find_text r)) []) of
             None \<Rightarrow> [] | Some f \<Rightarrow> [f])"
    and "diff_payloads st' = diff_payloads st @
          (if accumulatedDiff st' = [] then []
           else [js_join [CHR 0x0A, CHR 0x0A] (accumulatedDiff st')])"
  using assms(1) unfolding st'_def
  by (auto simp: diff_payloads_notifications translatePiEventToCodex.simps Let_def
       case_prod_beta ids_frame map_filter_append obj_def split: option.splits)

theorem diff_updates_monotonic_witness:
  "PiStdout (Some (Event AgentStart)) \<notin> set two_edits \<and>
   diff_payloads (run two_edits (initial ''/w'' ''t0'')) =
     [''--- a/a'' @ [CHR 0x0A] @ ''+++ b/a'' @ [CHR 0x0A] @ ''@@ A'',
      ''--- a/a'' @ [CHR 0x0A] @ ''+++ b/a'' @ [CHR 0x0A] @ ''@@ A'' @ [CHR 0x0A, CHR 0x0A] @
      ''--- a/b'' @ [CHR 0x0A] @ ''+++ b/b'' @ [CHR 0x0A] @ ''@@ B''] \<and>
   sorted_wrt prefix (drop (length (diff_payloads (initial ''/w'' ''t0'')))
     (diff_payloads (run two_edits (initial ''/w'' ''t0''))))"
proof -
  let ?st0 = "initial ''/w'' ''t0''"
  let ?e1 = "ToolExecutionEnd ''edit'' ''t1'' (Some (ToolResult None (Some ''@@ A''))) False
               (Some [(''path'', ''a'')])"
  let ?e2 = "ToolExecutionEnd ''edit'' ''t2'' (Some (ToolResult None (Some ''@@ B''))) False
               (Some [(''path'', ''b'')])"
  let ?st1 = "translatePiEventToCodex ?e1 ?st0"
  let ?st2 = "translatePiEventToCodex ?e2 ?st1"
  have fc: "isFileChange ''edit''"
    by (simp add: isFileChange_def)
  have s0: "toolArgsCache ?st0 = []" "accumulatedDiff ?st0 = []" "diff_payloads ?st0 = []"
    by (simp_all add: initial_def sendCodexNotification_def diff_payloads_def obj_def
          diff_payload_def)
  have f1: "diff_fragment (arg_filePath (Some (cached_args [] ''t1'' (Some [(''path'', ''a'')]))))
              (diff_of (Some (ToolResult None (Some ''@@ A''))))
              (orStr (text_of (find_text (Some (ToolResult None (Some ''@@ A''))))) []) =
            Some (''--- a/a'' @ [CHR 0x0A] @ ''+++ b/a'' @ [CHR 0x0A] @ ''@@ A'')"
    and f2: "diff_fragment (arg_filePath (Some (cached_args [] ''t2'' (Some [(''path'', ''b'')]))))
              (diff_of (Some (ToolResult None (Some ''@@ B''))))
              (orStr (text_of (find_text (Some (ToolResult None (Some ''@@ B''))))) []) =
            Some (''--- a/b'' @ [CHR 0x0A] @ ''+++ b/b'' @ [CHR 0x0A] @ ''@@ B'')"
    by (simp_all add: diff_fragment_def diff_of_def orElse_def cached_args_def arg_filePath_def
          arg_def orStr_def)
  have s1: "toolArgsCache ?st1 = []"
    "accumulatedDiff ?st1 = [''--- a/a'' @ [CHR 0x0A] @ ''+++ b/a'' @ [CHR 0x0A] @ ''@@ A'']"
    by (subst tool_end_effect(1) [OF fc], simp add: s0 map_delete_def)
       (subst tool_end_effect(2) [OF fc], simp add: s0 f1)
  have p1: "diff_payloads ?st1 = [''--- a/a'' @ [CHR 0x0A] @ ''+++ b/a'' @ [CHR 0x0A] @ ''@@ A'']"
    by (subst tool_end_effect(3) [OF fc]) (simp add: s0 s1)
  have s2: "accumulatedDiff ?st2 =
      [''--- a/a'' @ [CHR 0x0A] @ ''+++ b/a'' @ [CHR 0x0A] @ ''@@ A'',
       ''--- a/b'' @ [CHR 0x0A] @ ''+++ b/b'' @ [CHR 0x0A] @ ''@@ B'']"
    by (subst tool_end_effect(2) [OF fc]) (simp add: s1 f2)
  have p2: "diff_payloads ?st2 =
     [''--- a/a'' @ [CHR 0x0A] @ ''+++ b/a'' @ [CHR 0x0A] @ ''@@ A'',
      ''--- a/a'' @ [CHR 0x0A] @ ''+++ b/a'' @ [CHR 0x0A] @ ''@@ A'' @ [CHR 0x0A, CHR 0x0A] @
      ''--- a/b'' @ [CHR 0x0A] @ ''+++ b/b'' @ [CHR 0x0A] @ ''@@ B'']"
    by (subst tool_end_effect(3) [OF fc]) (simp add: s2 p1)
  have r: "run two_edits ?st0 = ?st2"
    by (simp add: two_edits_def run_Cons run_Nil)
  have a: "PiStdout (Some (Event AgentStart)) \<notin> set two_edits"
    by (simp add: two_edits_def)
  from diff_updates_monotonic [OF a, of ?st0] a p2 show ?thesis
    unfolding r by blast
qed
subsection \<open>Assistant-message item identifiers\<close>

lemma message_item_notification [simp]:
  "message_item (JObj [(''jsonrpc'', j), (''method'', JStr m), (''params'', p)]) =
     ((m = ''item/started'' \<or> m = ''item/completed'') \<and>
      (case field ''item'' p of
         None \<Rightarrow> False
       | Some it \<Rightarrow> field ''type'' it = Some (JStr ''agentMessage'')))"
  by (simp add: message_item_def opens_or_closes_item_def item_of_def)

lemma item_id_notification [simp]:
  "item_id (JObj [(''jsonrpc'', j), (''method'', JStr m), (''params'', p)]) =
     (case field ''item'' p of None \<Rightarrow> None | Some it \<Rightarrow> field ''id'' it)"
  by (simp add: item_id_def item_of_def)

lemma toolType_not_message [simp]: "toolType n \<noteq> ''agentMessage''"
  by (simp add: toolType_def)

lemma ids_currentMessageId [simp]:
  "currentMessageId (snd (snd (ids st))) = currentMessageId st"
  by (simp add: ids_frame)

lemma currentMessageId_sendCodexNotification [simp]:
  "currentMessageId (sendCodexNotification m p st) = currentMessageId st"
  by (simp add: sendCodexNotification_def)

text \<open>The invariant: the live message id, when there is one, was drawn by \<^verbatim>\<open>uuidv4\<close>, and
  so was the id of every assistant-message item opened or closed so far.\<close>

lemma event_message_ids:
  assumes "\<forall>i. currentMessageId st = Some i \<longrightarrow> (\<exists>n. i = uuid_str n)"
    and "\<forall>v \<in> set (notifications st). message_item v \<longrightarrow> (\<exists>n. item_id v = Some (JStr (uuid_str n)))"
  shows "(\<forall>i. currentMessageId (translatePiEventToCodex e st) = Some i \<longrightarrow> (\<exists>n. i = uuid_str n)) \<and>
         (\<forall>v \<in> set (notifications (translatePiEventToCodex e st)).
            message_item v \<longrightarrow> (\<exists>n. item_id v = Some (JStr (uuid_str n))))"
  using assms
  by (cases e)
    (auto simp: translatePiEventToCodex.simps Let_def case_prod_beta error_notification_def
       obj_def defined_fields_Cons orElse_def split: option.splits if_splits)

lemma step_message_ids:
  assumes "\<forall>i. currentMessageId st = Some i \<longrightarrow> (\<exists>n. i = uuid_str n)"
    and "\<forall>v \<in> set (notifications st). message_item v \<longrightarrow> (\<exists>n. item_id v = Some (JStr (uuid_str n)))"
  shows "(\<forall>i. currentMessageId (step j st) = Some i \<longrightarrow> (\<exists>n. i = uuid_str n)) \<and>
         (\<forall>v \<in> set (notifications (step j st)).
            message_item v \<longrightarrow> (\<exists>n. item_id v = Some (JStr (uuid_str n))))"
proof (cases "\<exists>e. j = PiStdout (Some (Event e))")
  case True
  then obtain e where "j = PiStdout (Some (Event e))" ..
  with event_message_ids [OF assms, of e] show ?thesis
    by simp
next
  case False
  then have ne: "\<forall>e. j \<noteq> PiStdout (Some (Event e))"
    by blast
  then have "translator_state (step j st) = translator_state st"
    and "notifications (step j st) = notifications st"
    by (simp_all add: step_frame)
  with assms show ?thesis
    by (simp add: translator_state_def)
qed

lemma run_message_ids:
  assumes "\<forall>i. currentMessageId st = Some i \<longrightarrow> (\<exists>n. i = uuid_str n)"
    and "\<forall>v \<in> set (notifications st). message_item v \<longrightarrow> (\<exists>n. item_id v = Some (JStr (uuid_str n)))"
  shows "\<forall>v \<in> set (notifications (run ins st)).
            message_item v \<longrightarrow> (\<exists>n. item_id v = Some (JStr (uuid_str n)))"
  using assms
proof (induction ins arbitrary: st)
  case Nil
  then show ?case by (simp add: run_Nil)
next
  case (Cons j ins)
  from step_message_ids [OF Cons.prems, of j] Cons.IH [of "step j st"] show ?case
    by (simp add: run_Cons)
qed

lemma message_item_is_notification: "message_item v \<Longrightarrow> field ''method'' v \<noteq> None"
  by (auto simp: message_item_def opens_or_closes_item_def)

lemma uuid_not_msg_0: "uuid_str n \<noteq> ''msg-0''"
  by (simp add: uuid_str_def)

text \<open>
  Claim C10, as the code has it. A \<^verbatim>\<open>message_update\<close> of sub-kind \<^verbatim>\<open>text_delta\<close> that arrives
  when no assistant-message item is live still writes an \<^verbatim>\<open>item/agentMessage/delta\<close>
  notification, and only that, with the fixed itemId \<^verbatim>\<open>msg-0\<close>. No \<^verbatim>\<open>item/started\<close> or
  \<^verbatim>\<open>item/completed\<close> notification of an assistant-message item ever carries that id: the
  ids of those items are drawn by \<^verbatim>\<open>uuidv4\<close>. (Tool items carry the id the agent chose.)
\<close>

theorem text_delta_without_message:
  "(currentMessageId st = None \<and> ae_type ae = ''text_delta'' \<longrightarrow>
      stdout (step (PiStdout (Some (Event (MessageUpdate (Some ae))))) st) =
        stdout st @
          [obj [(''jsonrpc'', Some (JStr ''2.0'')),
                (''method'', Some (JStr ''item/agentMessage/delta'')),
                (''params'', Some (obj [(''threadId'', Some (JStr (orStr (currentThreadId st) ''default''))),
                                        (''itemId'', Some (JStr ''msg-0'')),
                                        (''delta'', map_option JStr (ae_delta ae))]))]]) \<and>
   (\<forall>v \<in> set (stdout (run ins (initial dir t))).
      message_item v \<longrightarrow> item_id v \<noteq> Some (JStr ''msg-0''))"
proof -
  have init: "\<forall>i. currentMessageId (initial dir t) = Some i \<longrightarrow> (\<exists>n. i = uuid_str n)"
    "\<forall>v \<in> set (notifications (initial dir t)).
       message_item v \<longrightarrow> (\<exists>n. item_id v = Some (JStr (uuid_str n)))"
    by (simp_all add: initial_def sendCodexNotification_def notifications_def obj_def)
  have "item_id v \<noteq> Some (JStr ''msg-0'')"
    if "v \<in> set (stdout (run ins (initial dir t)))" and "message_item v" for v
  proof -
    from that message_item_is_notification [of v]
    have "v \<in> set (notifications (run ins (initial dir t)))"
      by (simp add: notifications_def)
    with run_message_ids [OF init, of ins] that(2) show ?thesis
      by (auto simp: uuid_not_msg_0)
  qed
  then show ?thesis
    by (auto simp: translatePiEventToCodex.simps Let_def case_prod_beta ids_def uuidv4_def
        sendCodexNotification_def orStr_def orElse_def split: option.splits)
qed

text \<open>The claim as stated fails for tool items, whose id the agent chooses: a
  \<^verbatim>\<open>tool_execution_start\<close> with the tool-call id \<^verbatim>\<open>msg-0\<close> opens an item with that id.\<close>

theorem tool_item_named_msg_0:
  "opens_or_closes_item
     (last (stdout (step (PiStdout (Some (Event (ToolExecutionStart ''bash'' ''msg-0'' None))))
                      (initial ''/w'' ''t0'')))) \<and>
   item_id
     (last (stdout (step (PiStdout (Some (Event (ToolExecutionStart ''bash'' ''msg-0'' None))))
                      (initial ''/w'' ''t0'')))) = Some (JStr ''msg-0'')"
  by (simp add: translatePiEventToCodex.simps Let_def case_prod_beta ids_frame(1-3)
        sendCodexNotification_def obj_def opens_or_closes_item_def item_id_def item_of_def)

theorem text_delta_without_message_witness:
  "currentMessageId (initial ''/w'' ''t0'') = None \<and>
   stdout (step (PiStdout (Some (Event (MessageUpdate
             (Some (AssistantEvent ''text_delta'' (Some ''Hi'') None None))))))
          (initial ''/w'' ''t0'')) =
     stdout (initial ''/w'' ''t0'') @
       [JObj [(''jsonrpc'', JStr ''2.0''), (''method'', JStr ''item/agentMessage/delta''),
              (''params'', JObj [(''threadId'', JStr ''default''), (''itemId'', JStr ''msg-0''),
                                 (''delta'', JStr ''Hi'')])]] \<and>
   message_item (last (stdout (run [assistant_start] (initial ''/w'' ''t0'')))) \<and>
   item_id (last (stdout (run [assistant_start] (initial ''/w'' ''t0'')))) \<noteq> Some (JStr ''msg-0'')"
proof -
  let ?st = "initial ''/w'' ''t0''"
  let ?ae = "AssistantEvent ''text_delta'' (Some ''Hi'') None None"
  have a: "currentMessageId ?st = None \<and> ae_type ?ae = ''text_delta''"
    by (simp add: initial_def sendCodexNotification_def)
  have out: "stdout (run [assistant_start] ?st) =
      stdout ?st @
        [JObj [(''jsonrpc'', JStr ''2.0''), (''method'', JStr ''item/started''),
               (''params'', JObj [(''threadId'', JStr ''default''),
                  (''item'', JObj [(''id'', JStr (uuid_str 1)), (''type'', JStr ''agentMessage''),
                                   (''status'', JStr ''inProgress'')])])]]"
    by (simp add: assistant_start_def run_Cons run_Nil translatePiEventToCodex.simps Let_def
          case_prod_beta ids_def uuidv4_def sendCodexNotification_def obj_def initial_def
          orStr_def orElse_def)
  have b: "last (stdout (run [assistant_start] ?st)) \<in> set (stdout (run [assistant_start] ?st))"
    and c: "message_item (last (stdout (run [assistant_start] ?st)))"
    unfolding out by simp_all
  from text_delta_without_message [of ?st ?ae "[assistant_start]" "''/w''" "''t0''"] a b c
  have "stdout (step (PiStdout (Some (Event (MessageUpdate (Some ?ae))))) ?st) =
        stdout ?st @
          [obj [(''jsonrpc'', Some (JStr ''2.0'')),
                (''method'', Some (JStr ''item/agentMessage/delta'')),
                (''params'', Some (obj [(''threadId'', Some (JStr (orStr (currentThreadId ?st) ''default''))),
                                        (''itemId'', Some (JStr ''msg-0'')),
                                        (''delta'', map_option JStr (ae_delta ?ae))]))]]"
    and d: "item_id (last (stdout (run [assistant_start] ?st))) \<noteq> Some (JStr ''msg-0'')"
    by blast+
  moreover have "currentThreadId ?st = None"
    by (simp add: initial_def sendCodexNotification_def)
  ultimately show ?thesis
    using a c by (simp add: obj_def orStr_def)
qed

subsection \<open>Fresh identifiers\<close>

lemma digit_inj: "d < 10 \<Longrightarrow> e < 10 \<Longrightarrow> digit d = digit e \<Longrightarrow> d = e"
  by (simp add: digit_def nth_eq_iff_index_eq)

lemma show_nat_not_Nil: "show_nat n \<noteq> []"
  by (subst show_nat.simps) simp

lemma show_nat_inj: "show_nat m = show_nat n \<Longrightarrow> m = n"
proof (induction m arbitrary: n rule: show_nat.induct)
  case (1 m)
  show ?case
  proof (cases "m < 10")
    case small_m: True
    then have sm: "show_nat m = [digit m]"
      by (subst show_nat.simps) simp
    show ?thesis
    proof (cases "n < 10")
      case True
      then have "show_nat n = [digit n]"
        by (subst show_nat.simps) simp
      with sm "1.prems" small_m True show ?thesis
        by (simp add: digit_inj)
    next
      case False
      then have "show_nat n = show_nat (n div 10) @ [digit (n mod 10)]"
        by (subst show_nat.simps) simp
      with sm "1.prems" show_nat_not_Nil [of "n div 10"] show ?thesis
        by (cases "show_nat (n div 10)") simp_all
    qed
  next
    case big_m: False
    then have sm: "show_nat m = show_nat (m div 10) @ [digit (m mod 10)]"
      by (subst show_nat.simps) simp
    show ?thesis
    proof (cases "n < 10")
      case True
      then have "show_nat n = [digit n]"
        by (subst show_nat.simps) simp
      with sm "1.prems" show_nat_not_Nil [of "m div 10"] show ?thesis
        by (cases "show_nat (m div 10)") simp_all
    next
      case False
      then have "show_nat n = show_nat (n div 10) @ [digit (n mod 10)]"
        by (subst show_nat.simps) simp
      with sm "1.prems" have "show_nat (m div 10) = show_nat (n div 10)"
        and "digit (m mod 10) = digit (n mod 10)"
        by simp_all
      with "1.IH" [OF big_m] have "m div 10 = n div 10" and "m mod 10 = n mod 10"
        by (simp_all add: digit_inj)
      then show ?thesis
        by (metis div_mult_mod_eq)
    qed
  qed
qed

lemma uuid_str_inj [simp]: "uuid_str m = uuid_str n \<longleftrightarrow> m = n"
  by (auto simp: uuid_str_def dest: show_nat_inj)

subsection \<open>The correlator map\<close>

lemma map_set_fresh: "k \<notin> fst ` set xs \<Longrightarrow> map_set k v xs = xs @ [(k, v)]"
  by (induction xs) auto

lemma map_delete_keys: "map fst (map_delete k xs) = filter (\<lambda>x. x \<noteq> k) (map fst xs)"
  by (induction xs) (auto simp: map_delete_def)

lemma map_delete_count:
  assumes "distinct (map fst xs)" and "map_of xs i = Some k"
  shows "length (filter P xs) = length (filter P (map_delete i xs)) + (if P (i, k) then 1 else 0)"
  using assms
proof (induction xs)
  case Nil
  then show ?case by simp
next
  case (Cons x xs)
  obtain j v where x: "x = (j, v)"
    by (cases x)
  show ?case
  proof (cases "j = i")
    case True
    with Cons.prems x have "v = k" and "i \<notin> fst ` set xs"
      by auto
    then have "map_delete i xs = xs"
      by (auto simp: map_delete_def filter_id_conv)
    with True x \<open>v = k\<close> show ?thesis
      by (simp add: map_delete_def)
  next
    case False
    with Cons x show ?thesis
      by (simp add: map_delete_def)
  qed
qed

subsection \<open>Accounting for requests\<close>

lemma fresh_update [simp]:
  "fresh (st\<lparr>piProcess := a1\<rparr>) = fresh st"
  "fresh (st\<lparr>piReader := a2\<rparr>) = fresh st"
  "fresh (st\<lparr>currentThreadId := a3\<rparr>) = fresh st"
  "fresh (st\<lparr>currentTurnId := a4\<rparr>) = fresh st"
  "fresh (st\<lparr>currentMessageId := c1\<rparr>) = fresh st"
  "fresh (st\<lparr>isProcessing := a5\<rparr>) = fresh st"
  "fresh (st\<lparr>currentModel := a7\<rparr>) = fresh st"
  "fresh (st\<lparr>currentProvider := a8\<rparr>) = fresh st"
  "fresh (st\<lparr>cwd := a9\<rparr>) = fresh st"
  "fresh (st\<lparr>toolArgsCache := c2\<rparr>) = fresh st"
  "fresh (st\<lparr>accumulatedDiff := c3\<rparr>) = fresh st"
  "fresh (st\<lparr>modelProviderMap := b1\<rparr>) = fresh st"
  "fresh (st\<lparr>stdout := b2\<rparr>) = fresh st"
  "fresh (st\<lparr>piStdin := b3\<rparr>) = fresh st"
  "fresh (st\<lparr>spawnCount := b7\<rparr>) = fresh st"
  "fresh (st\<lparr>clock := b8\<rparr>) = fresh st"
  by (simp_all add: fresh_def)

lemma balance_update [simp]:
  "balance R (st\<lparr>piProcess := a1\<rparr>) = balance R st"
  "balance R (st\<lparr>piReader := a2\<rparr>) = balance R st"
  "balance R (st\<lparr>currentThreadId := a3\<rparr>) = balance R st"
  "balance R (st\<lparr>currentTurnId := a4\<rparr>) = balance R st"
  "balance R (st\<lparr>currentMessageId := c1\<rparr>) = balance R st"
  "balance R (st\<lparr>isProcessing := a5\<rparr>) = balance R st"
  "balance R (st\<lparr>currentModel := a7\<rparr>) = balance R st"
  "balance R (st\<lparr>currentProvider := a8\<rparr>) = balance R st"
  "balance R (st\<lparr>cwd := a9\<rparr>) = balance R st"
  "balance R (st\<lparr>toolArgsCache := c2\<rparr>) = balance R st"
  "balance R (st\<lparr>accumulatedDiff := c3\<rparr>) = balance R st"
  "balance R (st\<lparr>modelProviderMap := b1\<rparr>) = balance R st"
  "balance R (st\<lparr>piStdin := b3\<rparr>) = balance R st"
  "balance R (st\<lparr>ioCount := b5\<rparr>) = balance R st"
  "balance R (st\<lparr>uuidCount := b6\<rparr>) = balance R st"
  "balance R (st\<lparr>spawnCount := b7\<rparr>) = balance R st"
  "balance R (st\<lparr>clock := b8\<rparr>) = balance R st"
  by (simp_all add: balance_def answered_def owed_def)

lemma well_formed_update [simp]:
  "well_formed (st\<lparr>piProcess := a1\<rparr>) = well_formed st"
  "well_formed (st\<lparr>piReader := a2\<rparr>) = well_formed st"
  "well_formed (st\<lparr>currentThreadId := a3\<rparr>) = well_formed st"
  "well_formed (st\<lparr>currentTurnId := a4\<rparr>) = well_formed st"
  "well_formed (st\<lparr>currentMessageId := c1\<rparr>) = well_formed st"
  "well_formed (st\<lparr>isProcessing := a5\<rparr>) = well_formed st"
  "well_formed (st\<lparr>pendingRequests := a6\<rparr>) = well_formed st"
  "well_formed (st\<lparr>currentModel := a7\<rparr>) = well_formed st"
  "well_formed (st\<lparr>currentProvider := a8\<rparr>) = well_formed st"
  "well_formed (st\<lparr>cwd := a9\<rparr>) = well_formed st"
  "well_formed (st\<lparr>toolArgsCache := c2\<rparr>) = well_formed st"
  "well_formed (st\<lparr>accumulatedDiff := c3\<rparr>) = well_formed st"
  "well_formed (st\<lparr>modelProviderMap := b1\<rparr>) = well_formed st"
  "well_formed (st\<lparr>piStdin := b3\<rparr>) = well_formed st"
  "well_formed (st\<lparr>ioWaits := b4\<rparr>) = well_formed st"
  "well_formed (st\<lparr>ioCount := b5\<rparr>) = well_formed st"
  "well_formed (st\<lparr>uuidCount := b6\<rparr>) = well_formed st"
  "well_formed (st\<lparr>spawnCount := b7\<rparr>) = well_formed st"
  "well_formed (st\<lparr>clock := b8\<rparr>) = well_formed st"
  by (simp_all add: well_formed_def)

text \<open>A response adds one to the account of its id; a notification adds nothing.\<close>

lemma sendCodexResponse_acct [simp]:
  "fresh (sendCodexResponse rid res err st) = fresh st"
  "balance R (sendCodexResponse rid res err st) = balance R st + (if rid = Some R then 1 else 0)"
  "res \<noteq> None \<or> err \<noteq> None \<Longrightarrow> well_formed (sendCodexResponse rid res err st) = well_formed st"
  by (auto simp: sendCodexResponse_def balance_def answered_def owed_def well_formed_def
        is_response_def obj_def defined_fields_Cons split: option.splits)

lemma sendCodexNotification_acct [simp]:
  "fresh (sendCodexNotification m p st) = fresh st"
  "balance R (sendCodexNotification m p st) = balance R st"
  "well_formed (sendCodexNotification m p st) = well_formed st"
  by (auto simp: sendCodexNotification_def balance_def answered_def owed_def well_formed_def
        is_notification_def obj_def)

lemma uuidv4_acct [simp]:
  "fresh st \<Longrightarrow> fresh (snd (uuidv4 st))"
  "balance R (snd (uuidv4 st)) = balance R st"
  "well_formed (snd (uuidv4 st)) = well_formed st"
  by (auto simp: uuidv4_def fresh_def less_Suc_eq)

lemma await_io_acct [simp]:
  "fresh st \<Longrightarrow> fresh (await_io w st)"
  "balance R (await_io w st) = balance R st + (if io_owes R w then 1 else 0)"
  "well_formed (await_io w st) = well_formed st"
  by (auto simp: await_io_def fresh_def balance_def answered_def owed_def less_Suc_eq)

lemma on_reject_acct [simp]:
  "fresh (on_reject k m st) = fresh st"
  "balance R (on_reject k m st) = balance R st + (if sink_owes R k then 1 else 0)"
  "well_formed (on_reject k m st) = well_formed st"
  by (cases k; simp add: error_response_def)+

lemma sendPiCommand_acct [simp]:
  "fresh st \<Longrightarrow> fresh (sendPiCommand c k st)"
  "fresh st \<Longrightarrow>
     balance R (sendPiCommand c k st) = balance R st + (if sink_owes R k then 1 else 0)"
  "well_formed (sendPiCommand c k st) = well_formed st"
proof -
  have new: "uuid_str (uuidCount st) \<notin> fst ` set (pendingRequests st)" if "fresh st"
    using that by (auto simp: fresh_def)
  show "fresh st \<Longrightarrow> fresh (sendPiCommand c k st)"
  proof (cases "piProcess st")
    case None
    then show "fresh st \<Longrightarrow> fresh (sendPiCommand c k st)"
      by (simp add: sendPiCommand_def)
  next
    case (Some p)
    then show "fresh st \<Longrightarrow> fresh (sendPiCommand c k st)"
      using new
      by (auto simp: sendPiCommand_def uuidv4_def map_set_fresh fresh_def less_Suc_eq)
  qed
  show "fresh st \<Longrightarrow>
     balance R (sendPiCommand c k st) = balance R st + (if sink_owes R k then 1 else 0)"
  proof (cases "piProcess st")
    case None
    then show "fresh st \<Longrightarrow>
      balance R (sendPiCommand c k st) = balance R st + (if sink_owes R k then 1 else 0)"
      by (simp add: sendPiCommand_def)
  next
    case (Some p)
    then show "fresh st \<Longrightarrow>
      balance R (sendPiCommand c k st) = balance R st + (if sink_owes R k then 1 else 0)"
      using new
      by (auto simp: sendPiCommand_def uuidv4_def map_set_fresh balance_def answered_def
            owed_def)
  qed
  show "well_formed (sendPiCommand c k st) = well_formed st"
    by (simp add: sendPiCommand_def case_prod_beta split: option.splits)
qed

lemma turn_response_acct [simp]:
  "fresh st \<Longrightarrow> fresh (turn_response rid m st)"
  "fresh st \<Longrightarrow> balance R (turn_response rid m st) = balance R st + (if rid = Some R then 1 else 0)"
  "well_formed (turn_response rid m st) = well_formed st"
  by (simp_all add: turn_response_def)

lemma handle_turn_start_acct:
  "fresh st \<Longrightarrow> fresh (handle_turn_start rid ps st)"
  "fresh st \<Longrightarrow>
     balance R (handle_turn_start rid ps st) = balance R st + (if rid = Some R then 1 else 0)"
  "well_formed (handle_turn_start rid ps st) = well_formed st"
  by (simp_all add: handle_turn_start_def Let_def case_prod_beta split: option.splits)

lemma dispatch_acct [simp]:
  "fresh st \<Longrightarrow> fresh (dispatch req st)"
  "fresh st \<Longrightarrow>
     balance R (dispatch req st) = balance R st + (if r_id req = Some R then 1 else 0)"
  "well_formed (dispatch req st) = well_formed st"
  by (simp_all add: dispatch_def Let_def handle_turn_start_acct handle_interrupt_def
      handle_model_list_def handle_initialize_def handle_thread_start_def
      handle_thread_resume_def handle_thread_list_def handle_thread_archive_def
      handle_auth_login_def case_prod_beta split: option.splits)

lemma on_resolve_acct [simp]:
  "fresh st \<Longrightarrow> fresh (on_resolve k d st)"
  "fresh st \<Longrightarrow>
     balance R (on_resolve k d st) = balance R st + (if sink_owes R k then 1 else 0)"
  "well_formed (on_resolve k d st) = well_formed st"
  by (cases k; simp add: model_list_response_def Let_def)+

lemma io_done_acct [simp]:
  "fresh st \<Longrightarrow> fresh (io_done w r st)"
  "fresh st \<Longrightarrow> balance R (io_done w r st) = balance R st + (if io_owes R w then 1 else 0)"
  "well_formed (io_done w r st) = well_formed st"
  by (cases w; cases r; simp add: spawn_pi_def)+

lemma main_line_acct [simp]:
  "fresh st \<Longrightarrow> fresh (main_line l st)"
  "fresh st \<Longrightarrow>
     balance R (main_line l st) = balance R st + (if is_request R (StdinLine l) then 1 else 0)"
  "well_formed (main_line l st) = well_formed st"
  by (cases l; simp add: main_line_def handleCodexRequest_def ensurePiProcess_def split: option.splits)+

lemma settle_pending_acct:
  assumes "fresh st" and "map_of (pendingRequests st) i = Some k"
  shows "fresh (st\<lparr>pendingRequests := map_delete i (pendingRequests st)\<rparr>)"
    and "balance R (st\<lparr>pendingRequests := map_delete i (pendingRequests st)\<rparr>) +
           (if sink_owes R k then 1 else 0) = balance R st"
proof -
  from assms(1) show "fresh (st\<lparr>pendingRequests := map_delete i (pendingRequests st)\<rparr>)"
    by (auto simp: fresh_def map_delete_keys)
  from assms(1) have "distinct (map fst (pendingRequests st))"
    by (simp add: fresh_def)
  from map_delete_count [OF this assms(2), of "\<lambda>e. sink_owes R (snd e)"]
  show "balance R (st\<lparr>pendingRequests := map_delete i (pendingRequests st)\<rparr>) +
           (if sink_owes R k then 1 else 0) = balance R st"
    by (simp add: balance_def answered_def owed_def)
qed

lemma settle_io_acct:
  assumes "fresh st" and "map_of (ioWaits st) n = Some w"
  shows "fresh (st\<lparr>ioWaits := map_delete n (ioWaits st)\<rparr>)"
    and "balance R (st\<lparr>ioWaits := map_delete n (ioWaits st)\<rparr>) +
           (if io_owes R w then 1 else 0) = balance R st"
proof -
  from assms(1) show "fresh (st\<lparr>ioWaits := map_delete n (ioWaits st)\<rparr>)"
    by (auto simp: fresh_def map_delete_keys)
  from assms(1) have "distinct (map fst (ioWaits st))"
    by (simp add: fresh_def)
  from map_delete_count [OF this assms(2), of "\<lambda>e. io_owes R (snd e)"]
  show "balance R (st\<lparr>ioWaits := map_delete n (ioWaits st)\<rparr>) +
           (if io_owes R w then 1 else 0) = balance R st"
    by (simp add: balance_def answered_def owed_def)
qed

lemma response_acct:
  assumes "fresh st"
  shows "fresh (handlePiMessage (Response r) st)"
    and "balance R (handlePiMessage (Response r) st) = balance R st"
    and "well_formed (handlePiMessage (Response r) st) = well_formed st"
proof -
  show "well_formed (handlePiMessage (Response r) st) = well_formed st"
    by (simp add: handlePiMessage_def Let_def split: option.splits)
  show "fresh (handlePiMessage (Response r) st)"
    using assms settle_pending_acct(1) [OF assms]
    by (simp add: handlePiMessage_def Let_def split: option.splits)
  show "balance R (handlePiMessage (Response r) st) = balance R st"
    using assms settle_pending_acct(1) [OF assms] settle_pending_acct(2) [OF assms, where R = R]
    by (auto simp: handlePiMessage_def Let_def split: option.splits)
qed

lemma ids_acct [simp]:
  "fresh st \<Longrightarrow> fresh (snd (snd (ids st)))"
  "balance R (snd (snd (ids st))) = balance R st"
  "well_formed (snd (snd (ids st))) = well_formed st"
  by (simp_all add: ids_def Let_def case_prod_beta split: option.splits)

lemma event_acct:
  "fresh st \<Longrightarrow> fresh (translatePiEventToCodex e st)"
  "balance R (translatePiEventToCodex e st) = balance R st"
  "well_formed (translatePiEventToCodex e st) = well_formed st"
  by (cases e; simp add: translatePiEventToCodex.simps Let_def case_prod_beta
        error_notification_def split: option.splits)+

lemma step_acct:
  assumes "fresh st"
  shows "fresh (step i st)"
    and "balance R (step i st) = balance R st + (if is_request R i then 1 else 0)"
    and "well_formed (step i st) = well_formed st"
proof -
  show "fresh (step i st)"
  proof (cases "\<exists>e. i = PiStdout (Some (Event e))")
    case True
    with assms show ?thesis
      by (auto simp: event_acct)
  next
    case False
    then have "\<forall>e. i \<noteq> PiStdout (Some (Event e))"
      by blast
    then show ?thesis
      using assms settle_io_acct(1) [OF assms]
      by (cases i rule: non_event_cases) (auto simp: response_acct split: option.splits)
  qed
  show "balance R (step i st) = balance R st + (if is_request R i then 1 else 0)"
  proof (cases "\<exists>e. i = PiStdout (Some (Event e))")
    case True
    then show ?thesis
      by (auto simp: event_acct)
  next
    case False
    then have "\<forall>e. i \<noteq> PiStdout (Some (Event e))"
      by blast
    then show ?thesis
      using assms settle_io_acct(1) [OF assms] settle_io_acct(2) [OF assms, where R = R]
      by (cases i rule: non_event_cases) (auto simp: response_acct split: option.splits)
  qed
  show "well_formed (step i st) = well_formed st"
  proof (cases "\<exists>e. i = PiStdout (Some (Event e))")
    case True
    then show ?thesis
      by (auto simp: event_acct)
  next
    case False
    then have "\<forall>e. i \<noteq> PiStdout (Some (Event e))"
      by blast
    then show ?thesis
      using assms
      by (cases i rule: non_event_cases)
        (auto simp: response_acct split: option.splits)
  qed
qed

lemma run_acct:
  assumes "fresh st"
  shows "fresh (run ins st)"
    and "balance R (run ins st) = balance R st + requests R ins"
    and "well_formed (run ins st) = well_formed st"
  using assms
proof (induction ins arbitrary: st)
  case Nil
  {
    case 1 then show ?case by (simp add: run_Nil)
  next
    case 2 then show ?case by (simp add: run_Nil requests_def)
  next
    case 3 then show ?case by (simp add: run_Nil)
  }
next
  case (Cons i ins)
  {
    case 1 then show ?case by (simp add: run_Cons Cons.IH(1) step_acct(1))
  next
    case 2 then show ?case
      by (simp add: run_Cons Cons.IH(2) step_acct(1,2) requests_def)
  next
    case 3 then show ?case by (simp add: run_Cons Cons.IH(3) step_acct(1,3))
  }
qed

lemma initial_acct:
  "fresh (initial dir t)" "balance R (initial dir t) = 0" "well_formed (initial dir t)"
  by (simp_all add: initial_def fresh_def balance_def answered_def owed_def well_formed_def
        sendCodexNotification_def obj_def is_notification_def)

text \<open>
  Claim C3, as the code has it. Every line that the bridge writes is a response or a
  notification: a line that carries an id is a response (it has a result or an error and
  no method), and no notification carries an id. For every id \<open>R\<close> that is a string or an
  integer of magnitude below \<open>2 ^ 53\<close> (the ids that are read and printed back unchanged),
  the lines written with that id and the handlers suspended for a request with that id add
  up to the requests received with that id (the lines with that id and a method). So the
  lines written with an id never outnumber the requests received with it, and are as many
  exactly when no handler of such a request is still suspended, waiting for an agent
  command or a file-system, timer or network operation to settle; a request whose id no
  other request shares has one line with its id once its handler is through, and none
  before.
\<close>

theorem requests_answered_or_owed:
  "(\<forall>v \<in> set (stdout (run ins (initial dir t))).
      (field ''id'' v \<noteq> None \<longrightarrow> is_response v) \<and>
      (field ''method'' v \<noteq> None \<longrightarrow> field ''id'' v = None)) \<and>
   (\<forall>R. exact_id R \<longrightarrow>
      answered R (run ins (initial dir t)) + owed R (run ins (initial dir t)) =
        requests R ins)"
proof -
  have "well_formed (run ins (initial dir t))"
    by (simp add: run_acct(3) initial_acct)
  then have "\<forall>v \<in> set (stdout (run ins (initial dir t))).
      (field ''id'' v \<noteq> None \<longrightarrow> is_response v) \<and>
      (field ''method'' v \<noteq> None \<longrightarrow> field ''id'' v = None)"
    by (auto simp: well_formed_def list_all_iff is_response_def is_notification_def)
  moreover have "balance R (run ins (initial dir t)) = requests R ins" for R
    by (simp add: run_acct(2) initial_acct)
  ultimately show ?thesis
    by (simp add: balance_def)
qed

lemma warm_initialize_run:
  "run (cold_inputs ''initialize'' no_params @ [acknowledge]) (initial ''/w'' ''t0'') =
     warm_start ''initialize'' no_params"
  by (simp add: run_append run_Cons run_Nil warm_start_def cold_start_def)

lemma warm_initialize:
  "pendingRequests (warm_start ''initialize'' no_params) = []"
  "ioWaits (warm_start ''initialize'' no_params) = []"
  "stdout (warm_start ''initialize'' no_params) =
     [JObj [(''jsonrpc'', JStr ''2.0''), (''method'', JStr ''codex/connected''),
            (''params'', JObj [])],
      JObj [(''jsonrpc'', JStr ''2.0''), (''id'', JNum 1),
            (''result'', JObj [(''protocolVersion'', JStr ''2.0''),
               (''capabilities'', JObj [(''threads'', JBool True), (''turns'', JBool True),
                                        (''models'', JBool True)])])]]"
  by (simp_all add: warm_start_def acknowledge_def cold_start_state handlePiMessage_def
        orElse_def map_delete_def dispatch_def handle_initialize_def sendCodexResponse_def
        initial_def sendCodexNotification_def obj_def Let_def)

theorem requests_answered_or_owed_witness:
  "exact_id (JNum 1) \<and>
   requests (JNum 1) (cold_inputs ''initialize'' no_params @ [acknowledge]) = 1 \<and>
   owed (JNum 1) (run (cold_inputs ''initialize'' no_params @ [acknowledge]) (initial ''/w'' ''t0'')) = 0 \<and>
   answered (JNum 1) (run (cold_inputs ''initialize'' no_params @ [acknowledge]) (initial ''/w'' ''t0'')) = 1 \<and>
   is_response (last (stdout (run (cold_inputs ''initialize'' no_params @ [acknowledge]) (initial ''/w'' ''t0'')))) \<and>
   field ''id'' (hd (stdout (run (cold_inputs ''initialize'' no_params @ [acknowledge]) (initial ''/w'' ''t0'')))) = None"
proof -
  let ?ins = "cold_inputs ''initialize'' no_params @ [acknowledge]"
  let ?st = "run ?ins (initial ''/w'' ''t0'')"
  have r: "requests (JNum 1) ?ins = 1"
    by (simp add: requests_def cold_inputs_def acknowledge_def orElse_def)
  have o: "owed (JNum 1) ?st = 0"
    by (simp add: owed_def warm_initialize_run warm_initialize)
  have l: "last (stdout ?st) \<in> set (stdout ?st)" "field ''id'' (last (stdout ?st)) \<noteq> None"
    and h: "hd (stdout ?st) \<in> set (stdout ?st)" "field ''method'' (hd (stdout ?st)) \<noteq> None"
    by (simp_all add: warm_initialize_run warm_initialize)
  have e: "exact_id (JNum 1)"
    by simp
  from requests_answered_or_owed [of ?ins "''/w''" "''t0''"] r o l h e show ?thesis
    by (metis add.right_neutral)
qed

text \<open>The claim as stated fails when the child exits with the start-up \<^verbatim>\<open>set_model\<close>
  pending: request 1 is never answered, while request 2, sent afterwards, is.\<close>

theorem request_unanswered_after_exit:
  "requests (JNum 1) (cold_inputs ''initialize'' no_params @ exit_and_respawn) = 1 \<and>
   answered (JNum 1)
     (run (cold_inputs ''initialize'' no_params @ exit_and_respawn) (initial ''/w'' ''t0'')) = 0 \<and>
   answered (JNum 2)
     (run (cold_inputs ''initialize'' no_params @ exit_and_respawn) (initial ''/w'' ''t0'')) = 1"
proof -
  have "requests (JNum 1) (cold_inputs ''initialize'' no_params @ exit_and_respawn) = 1"
    by (simp add: requests_def cold_inputs_def exit_and_respawn_def respawn_def orElse_def
          no_params_def)
  moreover have "run (cold_inputs ''initialize'' no_params @ exit_and_respawn)
                   (initial ''/w'' ''t0'') =
                 run exit_and_respawn (cold_start ''initialize'' no_params)"
    by (simp add: run_append cold_start_def)
  moreover have "stdout (run exit_and_respawn (cold_start ''initialize'' no_params)) =
     [JObj [(''jsonrpc'', JStr ''2.0''), (''method'', JStr ''codex/connected''),
            (''params'', JObj [])],
      JObj [(''jsonrpc'', JStr ''2.0''), (''id'', JNum 2),
            (''result'', JObj [(''threads'', JArr [])])]]"
    by (simp add: run_Cons run_Nil exit_and_respawn_def respawn_def cold_start_state main_line_def
          handleCodexRequest_def ensurePiProcess_def await_io_def map_delete_def spawn_pi_def sendPiCommand_def
          uuidv4_def uuid_1 handlePiMessage_def orElse_def dispatch_def
          handle_thread_list_def sendCodexResponse_def initial_def sendCodexNotification_def
          obj_def Let_def no_params_def)
  ultimately show ?thesis
    by (simp add: answered_def)
qed

subsection \<open>Commands pending at the child's exit\<close>

lemma pending_at_update [simp]:
  "pending_at c (st\<lparr>piProcess := a1\<rparr>) = pending_at c st"
  "pending_at c (st\<lparr>piReader := a2\<rparr>) = pending_at c st"
  "pending_at c (st\<lparr>currentThreadId := a3\<rparr>) = pending_at c st"
  "pending_at c (st\<lparr>currentTurnId := a4\<rparr>) = pending_at c st"
  "pending_at c (st\<lparr>currentMessageId := c1\<rparr>) = pending_at c st"
  "pending_at c (st\<lparr>isProcessing := a5\<rparr>) = pending_at c st"
  "pending_at c (st\<lparr>currentModel := a7\<rparr>) = pending_at c st"
  "pending_at c (st\<lparr>currentProvider := a8\<rparr>) = pending_at c st"
  "pending_at c (st\<lparr>cwd := a9\<rparr>) = pending_at c st"
  "pending_at c (st\<lparr>toolArgsCache := c2\<rparr>) = pending_at c st"
  "pending_at c (st\<lparr>accumulatedDiff := c3\<rparr>) = pending_at c st"
  "pending_at c (st\<lparr>modelProviderMap := b1\<rparr>) = pending_at c st"
  "pending_at c (st\<lparr>stdout := b2\<rparr>) = pending_at c st"
  "pending_at c (st\<lparr>piStdin := b3\<rparr>) = pending_at c st"
  "pending_at c (st\<lparr>ioWaits := b4\<rparr>) = pending_at c st"
  "pending_at c (st\<lparr>ioCount := b5\<rparr>) = pending_at c st"
  "pending_at c (st\<lparr>uuidCount := b6\<rparr>) = pending_at c st"
  "pending_at c (st\<lparr>spawnCount := b7\<rparr>) = pending_at c st"
  "pending_at c (st\<lparr>clock := b8\<rparr>) = pending_at c st"
  by (simp_all add: pending_at_def)

lemma pending_at_basic [simp]:
  "pending_at c (sendCodexResponse rid res err st) = pending_at c st"
  "pending_at c (sendCodexNotification m p st) = pending_at c st"
  "pending_at c (snd (uuidv4 st)) = pending_at c st"
  "pending_at c (await_io w st) = pending_at c st"
  "pending_at c (snd (snd (ids st))) = pending_at c st"
  by (simp_all add: sendCodexResponse_def sendCodexNotification_def uuidv4_def await_io_def
        ids_def Let_def case_prod_beta split: option.splits)

lemma pending_at_on_reject [simp]: "pending_at c (on_reject k m st) = pending_at c st"
  by (cases k) (simp_all add: error_response_def)

text \<open>A new command gets a new id, so it does not replace a pending one.\<close>

lemma pending_at_sendPiCommand [simp]:
  assumes "fresh st" and "pending_at c st \<noteq> None"
  shows "pending_at c (sendPiCommand cmd k st) = pending_at c st"
proof (cases "piProcess st")
  case None
  then show ?thesis
    by (simp add: sendPiCommand_def)
next
  case (Some p)
  from assms(2) have "c \<in> fst ` set (pendingRequests st)"
    by (auto simp: pending_at_def dest: map_of_SomeD intro: rev_image_eqI)
  with assms(1) obtain n where "n < uuidCount st" and "c = uuid_str n"
    by (auto simp: fresh_def)
  then have "uuid_str (uuidCount st) \<noteq> c"
    by simp
  with Some show ?thesis
    by (simp add: sendPiCommand_def uuidv4_def pending_at_def map_of_map_set)
qed

lemma pending_at_turn_response [simp]:
  "fresh st \<Longrightarrow> pending_at c st \<noteq> None \<Longrightarrow>
     pending_at c (turn_response rid m st) = pending_at c st"
  by (simp add: turn_response_def)

lemma pending_at_handle_turn_start:
  "fresh st \<Longrightarrow> pending_at c st \<noteq> None \<Longrightarrow>
     pending_at c (handle_turn_start rid ps st) = pending_at c st"
  by (simp add: handle_turn_start_def Let_def case_prod_beta split: option.splits)

lemma pending_at_dispatch [simp]:
  "fresh st \<Longrightarrow> pending_at c st \<noteq> None \<Longrightarrow> pending_at c (dispatch req st) = pending_at c st"
  by (simp add: dispatch_def Let_def pending_at_handle_turn_start handle_interrupt_def
      handle_model_list_def handle_initialize_def handle_thread_start_def
      handle_thread_resume_def handle_thread_list_def handle_thread_archive_def
      handle_auth_login_def case_prod_beta split: option.splits)

lemma pending_at_on_resolve [simp]:
  "fresh st \<Longrightarrow> pending_at c st \<noteq> None \<Longrightarrow> pending_at c (on_resolve k d st) = pending_at c st"
  by (cases k) (simp_all add: model_list_response_def Let_def)

lemma pending_at_io_done [simp]:
  "fresh st \<Longrightarrow> pending_at c st \<noteq> None \<Longrightarrow> pending_at c (io_done w r st) = pending_at c st"
  by (cases w; cases r) (simp_all add: spawn_pi_def)

lemma pending_at_main_line [simp]:
  "fresh st \<Longrightarrow> pending_at c st \<noteq> None \<Longrightarrow> pending_at c (main_line l st) = pending_at c st"
  by (cases l) (simp_all add: main_line_def handleCodexRequest_def ensurePiProcess_def split: option.splits)

lemma pending_at_event [simp]:
  "pending_at c (translatePiEventToCodex e st) = pending_at c st"
  by (cases e; simp add: translatePiEventToCodex.simps Let_def case_prod_beta
        error_notification_def split: option.splits)

lemma map_of_map_delete: "i \<noteq> c \<Longrightarrow> map_of (map_delete i xs) c = map_of xs c"
  by (induction xs) (auto simp: map_delete_def)

lemma pending_at_response:
  assumes "fresh st" and "pending_at c st \<noteq> None" and "pr_id r \<noteq> Some c"
  shows "pending_at c (handlePiMessage (Response r) st) = pending_at c st"
proof (cases "orElse (pr_id r) None")
  case None
  then show ?thesis
    by (simp add: handlePiMessage_def)
next
  case (Some i)
  with assms(3) have neq: "i \<noteq> c"
    by (auto simp: orElse_def split: option.splits if_splits)
  show ?thesis
  proof (cases "map_of (pendingRequests st) i")
    case None
    with Some show ?thesis
      by (simp add: handlePiMessage_def)
  next
    case found: (Some k)
    let ?st1 = "st\<lparr>pendingRequests := map_delete i (pendingRequests st)\<rparr>"
    have f1: "fresh ?st1"
      by (rule settle_pending_acct(1) [OF assms(1) found])
    have p1: "pending_at c ?st1 = pending_at c st"
      using neq by (simp add: pending_at_def map_of_map_delete)
    with assms(2) have "pending_at c ?st1 \<noteq> None"
      by simp
    with f1 p1 Some found show ?thesis
      by (simp add: handlePiMessage_def Let_def)
  qed
qed

lemma pending_at_step:
  assumes "fresh st" and "pending_at c st \<noteq> None"
    and "\<forall>r. i = PiStdout (Some (Response r)) \<longrightarrow> pr_id r \<noteq> Some c"
  shows "pending_at c (step i st) = pending_at c st"
proof (cases "\<exists>e. i = PiStdout (Some (Event e))")
  case True
  then show ?thesis
    by auto
next
  case False
  then have "\<forall>e. i \<noteq> PiStdout (Some (Event e))"
    by blast
  then show ?thesis
  proof (cases i rule: non_event_cases)
    case (Answer r)
    with assms show ?thesis
      by (simp add: pending_at_response)
  next
    case (Io n r)
    show ?thesis
    proof (cases "map_of (ioWaits st) n")
      case None
      with Io show ?thesis by simp
    next
      case (Some w)
      from settle_io_acct(1) [OF assms(1) Some] assms(2) Io Some show ?thesis
        by simp
    qed
  qed (use assms in simp_all)
qed

lemma pending_at_run:
  assumes "fresh st" and "pending_at c st \<noteq> None"
    and "\<forall>i \<in> set ins. \<forall>r. i = PiStdout (Some (Response r)) \<longrightarrow> pr_id r \<noteq> Some c"
  shows "pending_at c (run ins st) = pending_at c st"
  using assms
proof (induction ins arbitrary: st)
  case Nil
  then show ?case by (simp add: run_Nil)
next
  case (Cons i ins)
  from Cons.prems have s: "pending_at c (step i st) = pending_at c st"
    by (simp add: pending_at_step)
  with Cons.prems have "pending_at c (run ins (step i st)) = pending_at c (step i st)"
    by (intro Cons.IH) (simp_all add: step_acct(1))
  with s show ?case
    by (simp add: run_Cons)
qed

text \<open>
  Claim C1, as the code has it. When the child exits, the handler of the \<^verbatim>\<open>exit\<close> event
  clears the process handle and the reader and nothing else: the pending-request map is
  left as it is and nothing is written, so no pending command is rejected (or resolved).
  A command that is pending at the exit stays pending through everything that happens
  afterwards, unless a response line carrying its id arrives. Only a command sent while
  no child is running is rejected at once, with the error \<^verbatim>\<open>Pi process not running\<close>.
\<close>

theorem child_exit_keeps_pending:
  assumes "pending_at c (run pre (initial dir t)) = Some k"
    and "\<forall>i \<in> set post. \<forall>r. i = PiStdout (Some (Response r)) \<longrightarrow> pr_id r \<noteq> Some c"
  shows "pendingRequests (step PiExit (run pre (initial dir t))) =
           pendingRequests (run pre (initial dir t)) \<and>
         stdout (step PiExit (run pre (initial dir t))) = stdout (run pre (initial dir t)) \<and>
         piProcess (step PiExit (run pre (initial dir t))) = None \<and>
         piReader (step PiExit (run pre (initial dir t))) = None \<and>
         pending_at c (run (pre @ PiExit # post) (initial dir t)) = Some k \<and>
         sendPiCommand cmd k' (step PiExit (run pre (initial dir t))) =
           on_reject k' ''Pi process not running'' (step PiExit (run pre (initial dir t)))"
proof -
  let ?st = "run pre (initial dir t)"
  have "fresh ?st"
    by (simp add: run_acct(1) initial_acct(1))
  then have f: "fresh (step PiExit ?st)"
    by simp
  have p: "pending_at c (step PiExit ?st) = Some k"
    using assms(1) by simp
  with f assms(2) have "pending_at c (run post (step PiExit ?st)) = pending_at c (step PiExit ?st)"
    by (intro pending_at_run) simp_all
  with p have "pending_at c (run (pre @ PiExit # post) (initial dir t)) = Some k"
    by (simp add: run_append run_Cons)
  then show ?thesis
    by (simp add: sendPiCommand_def)
qed

theorem child_exit_keeps_pending_witness:
  "pending_at ''uuid-0'' (run (cold_inputs ''initialize'' no_params) (initial ''/w'' ''t0'')) =
     Some (AfterInitialModel (CodexRequest (Some (JNum 1)) ''initialize'' no_params)) \<and>
   pending_at ''uuid-0''
     (run (cold_inputs ''initialize'' no_params @ PiExit # respawn) (initial ''/w'' ''t0'')) =
     Some (AfterInitialModel (CodexRequest (Some (JNum 1)) ''initialize'' no_params))"
proof -
  have a: "pending_at ''uuid-0'' (run (cold_inputs ''initialize'' no_params) (initial ''/w'' ''t0'')) =
     Some (AfterInitialModel (CodexRequest (Some (JNum 1)) ''initialize'' no_params))"
    by (simp add: cold_start_def [symmetric] cold_start_state pending_at_def)
  have b: "\<forall>i \<in> set respawn. \<forall>r. i = PiStdout (Some (Response r)) \<longrightarrow> pr_id r \<noteq> Some ''uuid-0''"
    by (simp add: respawn_def)
  from child_exit_keeps_pending [OF a b] a b show ?thesis
    by blast
qed

text \<open>The claim as stated fails: the child exits while the \<^verbatim>\<open>set_model\<close> command of the
  start-up is pending; afterwards the command is still pending and nothing was written.\<close>

theorem child_exit_rejects_nothing:
  "pendingRequests (step PiExit (cold_start ''initialize'' no_params)) =
     [(''uuid-0'', AfterInitialModel (CodexRequest (Some (JNum 1)) ''initialize'' no_params))] \<and>
   stdout (step PiExit (cold_start ''initialize'' no_params)) = stdout (initial ''/w'' ''t0'')"
  by (simp add: cold_start_state)

end
